theory Spec2Isabelle
  imports Main "HOL-Library.Word" "HOL-Library.Sublist" "HOL-Library.AList"
begin

section \<open>JavaScript strings and values\<close>

text \<open>
  A JavaScript string is a sequence of UTF-16 code units. ASCII literals of the source are
  written with \<open>js\<close>; every other character is given by its code units.
\<close>

type_synonym jsstring = "16 word list"

definition js :: "string \<Rightarrow> jsstring" where
  "js s = map of_char s"

text \<open>
  The code units that \<open>String.prototype.trim\<close> strips and that the regular-expression
  class \<open>\s\<close> matches: the WhiteSpace and LineTerminator productions of ECMAScript.
\<close>

definition isWhiteSpace :: "16 word \<Rightarrow> bool" where
  "isWhiteSpace c \<longleftrightarrow>
     c \<in> {0x9, 0xA, 0xB, 0xC, 0xD, 0x20, 0xA0, 0x1680, 0x2028, 0x2029, 0x202F, 0x205F,
          0x3000, 0xFEFF}
     \<or> (0x2000 \<le> c \<and> c \<le> 0x200A)"

definition trimStart :: "jsstring \<Rightarrow> jsstring" where
  "trimStart s = dropWhile isWhiteSpace s"

definition trimEnd :: "jsstring \<Rightarrow> jsstring" where
  "trimEnd s = rev (dropWhile isWhiteSpace (rev s))"

definition String_trim :: "jsstring \<Rightarrow> jsstring" where
  "String_trim s = trimEnd (trimStart s)"

fun String_includes :: "jsstring \<Rightarrow> jsstring \<Rightarrow> bool" where
  "String_includes [] needle = (needle = [])"
| "String_includes (c # cs) needle = (prefix needle (c # cs) \<or> String_includes cs needle)"

definition String_startsWith :: "jsstring \<Rightarrow> jsstring \<Rightarrow> bool" where
  "String_startsWith s p = prefix p s"

fun join :: "jsstring \<Rightarrow> jsstring list \<Rightarrow> jsstring" where
  "join sep [] = []"
| "join sep [x] = x"
| "join sep (x # y # ys) = x @ sep @ join sep (y # ys)"

fun digits :: "nat \<Rightarrow> jsstring" where
  "digits n = (if n < 10 then [of_nat (48 + n)]
               else digits (n div 10) @ [of_nat (48 + n mod 10)])"

declare digits.simps [simp del]

text \<open>
  A JavaScript number is a double. \<open>JNum n\<close> is the number with the integer value \<open>n\<close>
  (\<open>JNum 0\<close> is both zeros), and \<open>JFrac i\<close> is a number that is not an integer: the
  index only tells such numbers apart. JSON has neither \<open>NaN\<close> nor the infinities.
\<close>

datatype json =
    JNull
  | JBool bool
  | JNum int
  | JFrac nat
  | JStr jsstring
  | JArr "json list"
  | JObj "(jsstring \<times> json) list"

text \<open>
  The environment of a run: the credential, the outcome of every network call, the
  built-in JSON functions, the engine's \<open>Number::toString\<close>, and the message the engine
  gives a \<open>TypeError\<close>.
\<close>

datatype response =
    NetworkFailure jsstring
  | HttpResponse nat jsstring "jsstring + json"

record env =
  API_KEY :: jsstring
  net :: "nat \<Rightarrow> response"
  JSON_parse :: "jsstring \<Rightarrow> jsstring + json"
  JSON_stringify :: "json \<Rightarrow> jsstring"
  JSON_stringify_indent :: "json \<Rightarrow> jsstring"
  Number_toString :: "json \<Rightarrow> jsstring"
  typeErrorMessage :: jsstring

text \<open>
  \<open>String(n)\<close> for a number with the integer value \<open>n\<close>. A safe integer, of magnitude
  below \<open>2 ^ 53\<close>, is printed with all its decimal digits. The digits of every other
  number (the shortest ones that read back as the same double, in exponent form from
  \<open>10 ^ 21\<close> on) are not computed here: they are what the engine's function gives.
\<close>

definition numberToString :: "env \<Rightarrow> int \<Rightarrow> jsstring" where
  "numberToString e n =
     (if - (2 ^ 53) < n \<and> n < 2 ^ 53
      then (if n < 0 then 0x2D # digits (nat (- n)) else digits (nat n))
      else Number_toString e (JNum n))"

text \<open>A value of type \<open>json option\<close> is a JavaScript value that may be \<open>undefined\<close> (\<open>None\<close>).\<close>

fun truthy :: "json \<Rightarrow> bool" where
  "truthy JNull = False"
| "truthy (JBool b) = b"
| "truthy (JNum n) = (n \<noteq> 0)"
| "truthy (JFrac i) = True"
| "truthy (JStr s) = (s \<noteq> [])"
| "truthy (JArr xs) = True"
| "truthy (JObj kvs) = True"

definition truthy_opt :: "json option \<Rightarrow> bool" where
  "truthy_opt v = (case v of None \<Rightarrow> False | Some x \<Rightarrow> truthy x)"

text \<open>
  Thrown values are \<open>Error\<close> objects; only their \<open>message\<close> is ever inspected.
\<close>

datatype jserror = JsError (message: jsstring)

text \<open>The values of a list of computations, or the first exception among them.\<close>

fun firstError :: "(jserror + 'a) list \<Rightarrow> jserror + 'a list" where
  "firstError [] = Inr []"
| "firstError (x # xs) =
     (case x of
        Inl err \<Rightarrow> Inl err
      | Inr v \<Rightarrow> (case firstError xs of Inl err \<Rightarrow> Inl err | Inr vs \<Rightarrow> Inr (v # vs)))"

text \<open>
  \<open>String(v)\<close>, which is also how a value becomes a property key or the message of an
  \<open>Error\<close>. An array is joined with commas, \<open>null\<close> elements giving the empty string. A
  plain object is \<open>[object Object]\<close>, unless it has an own property \<open>toString\<close>: that
  property of a parsed value is not a function, the inherited \<open>valueOf\<close> returns the
  object itself, and the conversion throws a \<open>TypeError\<close>.
\<close>

fun jsString :: "env \<Rightarrow> json \<Rightarrow> jserror + jsstring" where
  "jsString e JNull = Inr (js ''null'')"
| "jsString e (JBool b) = Inr (if b then js ''true'' else js ''false'')"
| "jsString e (JNum n) = Inr (numberToString e n)"
| "jsString e (JFrac i) = Inr (Number_toString e (JFrac i))"
| "jsString e (JStr s) = Inr s"
| "jsString e (JArr xs) =
     (case firstError (map (\<lambda>x. if x = JNull then Inr [] else jsString e x) xs) of
        Inl err \<Rightarrow> Inl err
      | Inr strings \<Rightarrow> Inr (join [0x2C] strings))"
| "jsString e (JObj kvs) =
     (if map_of kvs (js ''toString'') \<noteq> None then Inl (JsError (typeErrorMessage e))
      else Inr (js ''[object Object]''))"

text \<open>
  Reading a named property of a non-null value. The source reads the names
  \<open>id\<close>, \<open>url\<close>, \<open>error\<close>, \<open>insights\<close>, \<open>candidates\<close>, \<open>content\<close>, \<open>parts\<close> and
  \<open>text\<close>; none is a member of a built-in prototype, so only objects have them.
\<close>

fun getProp :: "json \<Rightarrow> jsstring \<Rightarrow> json option" where
  "getProp (JObj kvs) k = map_of kvs k"
| "getProp _ k = None"

fun getIndex :: "json \<Rightarrow> nat \<Rightarrow> json option" where
  "getIndex (JArr xs) i = (if i < length xs then Some (xs ! i) else None)"
| "getIndex (JStr s) i = (if i < length s then Some (JStr [s ! i]) else None)"
| "getIndex (JObj kvs) i = map_of kvs (digits i)"
| "getIndex _ i = None"

text \<open>Optional chaining \<open>v?.p\<close>: \<open>undefined\<close> when \<open>v\<close> is \<open>null\<close> or \<open>undefined\<close>.\<close>

fun optChain :: "json option \<Rightarrow> (json \<Rightarrow> json option) \<Rightarrow> json option" where
  "optChain None f = None"
| "optChain (Some JNull) f = None"
| "optChain (Some v) f = f v"

section \<open>The extractor: \<open>extractJsonFromText\<close>\<close>

text \<open>
  \<open>src/api/search.js\<close>, lines 298 to 313. The two regular expressions are run as a backtracking matcher does: every piece of
  the pattern takes the continuation that matches the rest of the pattern, a greedy
  piece tries its longest match first, a lazy piece its shortest, and the first success
  is the match.
\<close>

definition fence :: jsstring where
  "fence = [0x60, 0x60, 0x60]"

text \<open>A literal piece of the pattern.\<close>

definition lit :: "jsstring \<Rightarrow> (jsstring \<Rightarrow> 'a option) \<Rightarrow> jsstring \<Rightarrow> 'a option" where
  "lit p k s = (if prefix p s then k (drop (length p) s) else None)"

text \<open>An optional literal \<open>(?:p)?\<close>: with \<open>p\<close> first, then without.\<close>

definition opt_lit :: "jsstring \<Rightarrow> (jsstring \<Rightarrow> 'a option) \<Rightarrow> jsstring \<Rightarrow> 'a option" where
  "opt_lit p k s = (case lit p k s of Some r \<Rightarrow> Some r | None \<Rightarrow> k s)"

text \<open>\<open>\s*\<close>, greedy.\<close>

fun ws_star :: "(jsstring \<Rightarrow> 'a option) \<Rightarrow> jsstring \<Rightarrow> 'a option" where
  "ws_star k [] = k []"
| "ws_star k (c # cs) =
     (if isWhiteSpace c
      then (case ws_star k cs of Some r \<Rightarrow> Some r | None \<Rightarrow> k (c # cs))
      else k (c # cs))"

text \<open>\<open>([\s\S]*?)\<close>, lazy: the capture is returned with the continuation's result.\<close>

fun lazy_any :: "(jsstring \<Rightarrow> 'a option) \<Rightarrow> jsstring \<Rightarrow> (jsstring \<times> 'a) option" where
  "lazy_any k [] = map_option (Pair []) (k [])"
| "lazy_any k (c # cs) =
     (case k (c # cs) of
        Some r \<Rightarrow> Some ([], r)
      | None \<Rightarrow> map_option (\<lambda>(cap, r). (c # cap, r)) (lazy_any k cs))"

text \<open>\<open>[\s\S]*\<close>, greedy.\<close>

fun greedy_any :: "(jsstring \<Rightarrow> 'a option) \<Rightarrow> jsstring \<Rightarrow> (jsstring \<times> 'a) option" where
  "greedy_any k [] = map_option (Pair []) (k [])"
| "greedy_any k (c # cs) =
     (case greedy_any k cs of
        Some (cap, r) \<Rightarrow> Some (c # cap, r)
      | None \<Rightarrow> map_option (Pair []) (k (c # cs)))"

definition accept :: "jsstring \<Rightarrow> unit option" where
  "accept s = Some ()"

text \<open>
  The pattern of the fenced block, three backticks, \<open>(?:json)?\s*([\s\S]*?)\s*\<close>, three
  backticks, matched at the start of \<open>s\<close>; the result is capture group 1.
\<close>

definition markdownAt :: "jsstring \<Rightarrow> jsstring option" where
  "markdownAt =
     lit fence (opt_lit (js ''json'') (ws_star
       (\<lambda>s. map_option fst (lazy_any (ws_star (lit fence accept)) s))))"

text \<open>The pattern \<open>(\[[\s\S]*\])\<close> matched at the start of \<open>s\<close>; the result is group 1.\<close>

definition arrayAt :: "jsstring \<Rightarrow> jsstring option" where
  "arrayAt =
     lit [0x5B] (\<lambda>s. map_option (\<lambda>(cap, r). [0x5B] @ cap @ [0x5D])
                        (greedy_any (lit [0x5D] accept) s))"

text \<open>\<open>text.match(re)\<close> for a pattern without the global flag: the leftmost match.\<close>

fun String_match :: "(jsstring \<Rightarrow> 'a option) \<Rightarrow> jsstring \<Rightarrow> 'a option" where
  "String_match re [] = re []"
| "String_match re (c # cs) =
     (case re (c # cs) of Some r \<Rightarrow> Some r | None \<Rightarrow> String_match re cs)"

definition extractJsonFromText :: "jsstring \<Rightarrow> jsstring" where
  "extractJsonFromText text =
     (case String_match markdownAt text of
        Some group1 \<Rightarrow> String_trim group1
      | None \<Rightarrow>
         (case String_match arrayAt text of
            Some group1 \<Rightarrow> String_trim group1
          | None \<Rightarrow> String_trim text))"

text \<open>
  The extractor in words, without the regular expressions. Its first step is the trimmed
  interior of the first fenced block, its last step the trimmed text. For the step
  between them there are two readings: \<open>extractPayload\<close> takes the balanced top-level
  array that the specification speaks of, \<open>extractBySpan\<close> the substring from the first
  opening bracket to the last closing bracket of the text.
\<close>

fun split_first :: "jsstring \<Rightarrow> jsstring \<Rightarrow> (jsstring \<times> jsstring) option" where
  "split_first pat [] = (if pat = [] then Some ([], []) else None)"
| "split_first pat (c # cs) =
     (if prefix pat (c # cs) then Some ([], drop (length pat) (c # cs))
      else map_option (\<lambda>(before, after). (c # before, after)) (split_first pat cs))"

definition strip_tag :: "jsstring \<Rightarrow> jsstring" where
  "strip_tag s = (if prefix (js ''json'') s then drop 4 s else s)"

definition fencedInterior :: "jsstring \<Rightarrow> jsstring option" where
  "fencedInterior text =
     (case split_first fence text of
        None \<Rightarrow> None
      | Some (before, opened) \<Rightarrow> map_option fst (split_first fence (strip_tag opened)))"

text \<open>The prefix of \<open>s\<close> that ends with the last \<open>x\<close> in it; empty when there is none.\<close>

definition upToLast :: "16 word \<Rightarrow> jsstring \<Rightarrow> jsstring" where
  "upToLast x s = rev (dropWhile (\<lambda>c. c \<noteq> x) (rev s))"

text \<open>
  The substring from the first opening bracket to the last closing bracket after it.
\<close>

definition bracketSpan :: "jsstring \<Rightarrow> jsstring option" where
  "bracketSpan text =
     (case dropWhile (\<lambda>c. c \<noteq> 0x5B) text of
        [] \<Rightarrow> None
      | opening # rest \<Rightarrow>
         (case upToLast 0x5D rest of
            [] \<Rightarrow> None
          | inner \<Rightarrow> Some (opening # inner)))"

definition extractBySpan :: "jsstring \<Rightarrow> jsstring" where
  "extractBySpan rawText =
     (case fencedInterior rawText of
        Some interior \<Rightarrow> String_trim interior
      | None \<Rightarrow>
         (case bracketSpan rawText of
            Some span \<Rightarrow> String_trim span
          | None \<Rightarrow> String_trim rawText))"

text \<open>
  The balanced top-level array of a text: from its first opening bracket to the closing
  bracket that matches it. \<open>closeBracket depth s\<close> is the part of \<open>s\<close> up to that closing
  bracket, \<open>depth\<close> being the number of brackets opened since and not yet closed.
\<close>

fun closeBracket :: "nat \<Rightarrow> jsstring \<Rightarrow> jsstring option" where
  "closeBracket depth [] = None"
| "closeBracket depth (c # cs) =
     (if c = 0x5D
      then (if depth = 0 then Some [c]
            else map_option (Cons c) (closeBracket (depth - 1) cs))
      else if c = 0x5B then map_option (Cons c) (closeBracket (depth + 1) cs)
      else map_option (Cons c) (closeBracket depth cs))"

definition balancedArray :: "jsstring \<Rightarrow> jsstring option" where
  "balancedArray text =
     (case dropWhile (\<lambda>c. c \<noteq> 0x5B) text of
        [] \<Rightarrow> None
      | opening # rest \<Rightarrow> map_option (Cons opening) (closeBracket 0 rest))"

definition extractPayload :: "jsstring \<Rightarrow> jsstring" where
  "extractPayload rawText =
     (case fencedInterior rawText of
        Some interior \<Rightarrow> String_trim interior
      | None \<Rightarrow>
         (case balancedArray rawText of
            Some array \<Rightarrow> String_trim array
          | None \<Rightarrow> String_trim rawText))"

section \<open>Result post-processing, feedback and the job link\<close>

text \<open>
  A processed job listing is the object literal \<open>{...job, id: ...}\<close> of \<open>handleSearch\<close>
  (\<open>src/App.jsx\<close>, lines 143 to 147, and \<open>src/api/search.js\<close>, lines 670 to 674), by
  its properties in order.
\<close>

type_synonym joblisting = "(jsstring \<times> json) list"

text \<open>The own enumerable properties that \<open>{...job}\<close> copies.\<close>

fun indexed :: "nat \<Rightarrow> json list \<Rightarrow> (jsstring \<times> json) list" where
  "indexed i [] = []"
| "indexed i (x # xs) = (digits i, x) # indexed (Suc i) xs"

fun spreadProps :: "json \<Rightarrow> (jsstring \<times> json) list" where
  "spreadProps (JObj kvs) = kvs"
| "spreadProps (JArr xs) = indexed 0 xs"
| "spreadProps (JStr s) = indexed 0 (map (\<lambda>c. JStr [c]) s)"
| "spreadProps _ = []"

definition processJob :: "env \<Rightarrow> nat \<Rightarrow> json \<Rightarrow> jserror + joblisting" where
  "processJob e index job =
     (if job = JNull then Inl (JsError (typeErrorMessage e))
      else
        let jid = getProp job (js ''id'') in
        case (if truthy_opt jid then jsString e (the jid)
              else Inr (js ''fallback-job-'' @ digits index)) of
          Inl err \<Rightarrow> Inl err
        | Inr newId \<Rightarrow> Inr (AList.update (js ''id'') (JStr newId) (spreadProps job)))"

text \<open>\<open>jobResults.map((job, index) => ...)\<close>, stopping at the first exception.\<close>

fun mapJobs :: "env \<Rightarrow> nat \<Rightarrow> json list \<Rightarrow> jserror + joblisting list" where
  "mapJobs e index [] = Inr []"
| "mapJobs e index (job # jobs) =
     (case processJob e index job of
        Inl err \<Rightarrow> Inl err
      | Inr j \<Rightarrow>
         (case mapJobs e (Suc index) jobs of
            Inl err \<Rightarrow> Inl err
          | Inr done \<Rightarrow> Inr (j # done)))"

text \<open>
  The feedback object \<open>{ jobId: 'positive' }\<close> is a plain object whose values are strings:
  the map of its own properties. Its prototype is \<open>Object.prototype\<close>, whose members are
  functions, and the accessor \<open>__proto__\<close>, which reads as an object.
\<close>

type_synonym feedback = "jsstring \<rightharpoonup> jsstring"

definition propertyKey :: "env \<Rightarrow> json option \<Rightarrow> jserror + jsstring" where
  "propertyKey e v = (case v of None \<Rightarrow> Inr (js ''undefined'') | Some x \<Rightarrow> jsString e x)"

text \<open>
  The assignment \<open>obj[key] = value\<close> of a string to a property of such an object. It
  creates or replaces the own property, with one exception: when the object has no own
  property \<open>__proto__\<close>, the assignment runs the setter inherited from
  \<open>Object.prototype\<close>, which ignores a value that is neither an object nor \<open>null\<close>, and
  stores nothing.
\<close>

definition assignProperty :: "feedback \<Rightarrow> jsstring \<Rightarrow> jsstring \<Rightarrow> feedback" where
  "assignProperty obj key v =
     (if key = js ''__proto__'' \<and> obj key = None then obj else obj(key \<mapsto> v))"

text \<open>
  \<open>handleFeedback\<close> (\<open>src/App.jsx\<close>, lines 176 to 188, and \<open>src/api/search.js\<close>, lines
  698 to 710): the state updater it passes to \<open>setFeedback\<close>. \<open>type\<close> is a string, so
  \<open>currentFeedback === type\<close> holds only for an own property with that value: an
  inherited member is never a string. The first use of \<open>job.id\<close> as a key throws when the
  id has no string; the later uses convert the same value again, with the same result.
\<close>

definition handleFeedback ::
  "env \<Rightarrow> feedback \<Rightarrow> joblisting \<Rightarrow> jsstring \<Rightarrow> jserror + feedback" where
  "handleFeedback e prevFeedback job type =
     (case propertyKey e (map_of job (js ''id'')) of
        Inl err \<Rightarrow> Inl err
      | Inr key \<Rightarrow>
          let currentFeedback = prevFeedback key;
              newFeedback = prevFeedback
          in if currentFeedback = Some type
             then Inr (newFeedback(key := None))
             else Inr (assignProperty newFeedback key type))"

text \<open>
  The link of a rendered listing (\<open>src/App.jsx\<close>, lines 421 to 435, and
  \<open>src/api/search.js\<close>, lines 912 to 926): \<open>isValidUrl\<close> is used only for its
  truthiness; a truthy \<open>url\<close> that is not a string has no \<open>startsWith\<close> and rendering
  throws. The link carries \<open>aria-disabled={!isValidUrl}\<close>, and its click handler calls
  \<open>preventDefault\<close> when \<open>isValidUrl\<close> is falsy.
\<close>

definition isValidUrl :: "env \<Rightarrow> joblisting \<Rightarrow> jserror + bool" where
  "isValidUrl e job =
     (case map_of job (js ''url'') of
        None \<Rightarrow> Inr False
      | Some u \<Rightarrow>
         if \<not> truthy u then Inr False
         else (case u of
                 JStr s \<Rightarrow> Inr (String_startsWith s (js ''http://'')
                                 \<or> String_startsWith s (js ''https://''))
               | _ \<Rightarrow> Inl (JsError (typeErrorMessage e))))"

record link =
  href :: "json option"
  ariaDisabled :: bool
  preventsDefault :: bool

definition renderJobLink :: "env \<Rightarrow> joblisting \<Rightarrow> jserror + link" where
  "renderJobLink e job =
     (case isValidUrl e job of
        Inl err \<Rightarrow> Inl err
      | Inr valid \<Rightarrow>
         Inr \<lparr>href = map_of job (js ''url''), ariaDisabled = \<not> valid,
              preventsDefault = \<not> valid\<rparr>)"

section \<open>Effects: network calls, waits and console output\<close>

datatype logged =
    Text jsstring
  | Value "json option"
  | Thrown jserror

text \<open>
  \<open>Fetch url headers body\<close> is one call of \<open>fetch\<close>, \<open>Wait ms\<close> one \<open>setTimeout\<close> delay that
  the caller awaits, \<open>Console args\<close> one call of a \<open>console\<close> printing function. A run
  appends its events to the trace; the n-th call of \<open>fetch\<close> receives \<open>net e n\<close>.
\<close>

datatype event =
    Fetch jsstring "(jsstring \<times> jsstring) list" jsstring
  | Wait nat
  | Console "logged list"

fun isFetch :: "event \<Rightarrow> bool" where
  "isFetch (Fetch url headers body) = True"
| "isFetch _ = False"

definition fetchCount :: "event list \<Rightarrow> nat" where
  "fetchCount tr = length (filter isFetch tr)"

text \<open>\<open>response.ok\<close>.\<close>

definition ok :: "nat \<Rightarrow> bool" where
  "ok status \<longleftrightarrow> 200 \<le> status \<and> status \<le> 299"

section \<open>The constants of the application\<close>

definition RICH_FALLBACK_JOBS :: "json list" where
  "RICH_FALLBACK_JOBS =
     [JObj
       [(js ''id'', JNum 101),
        (js ''title'', JStr (js ''English-Speaking Office Coordinator'')),
        (js ''company'', JStr (js ''TechHub Vienna'')),
        (js ''location'', JStr (js ''Vienna, 1010'')),
        (js ''type'', JStr (js ''Full-time'')),
        (js ''description'', JStr (js ''Manage office logistics and support the international ''
                        @ js ''team. Requires excellent English communication ''
                        @ js ''skills.'')),
        (js ''url'', JStr (js ''#'')),
        (js ''salary'', JStr ([0x20AC] @ js ''32,000 - '' @ [0x20AC] @ js ''36,000'')),
        (js ''posted'', JStr (js ''1 day ago''))],
      JObj
       [(js ''id'', JNum 102),
        (js ''title'', JStr (js ''Part-Time Animal Care Assistant'')),
        (js ''company'', JStr (js ''M'' @ [0xF6] @ js ''dling Vet Clinic'')),
        (js ''location'', JStr (js ''M'' @ [0xF6] @ js ''dling'')),
        (js ''type'', JStr (js ''Part-time'')),
        (js ''description'', JStr (js ''Assist veterinarians with basic patient care ''
                        @ js ''and administrative tasks. No German required.'')),
        (js ''url'', JStr (js ''#'')),
        (js ''salary'', JStr ([0x20AC] @ js ''15/hour'')),
        (js ''posted'', JStr (js ''3 days ago''))],
      JObj
       [(js ''id'', JNum 103),
        (js ''title'', JStr (js ''Entry-Level Data Entry Specialist'')),
        (js ''company'', JStr (js ''Global Logistics AG'')),
        (js ''location'', JStr (js ''Vienna, 1030'')),
        (js ''type'', JStr (js ''Contract'')),
        (js ''description'', JStr (js ''Input and verify shipping data for European ''
                        @ js ''distribution networks. Fast-paced, detail-oriented ''
                        @ js ''work.'')),
        (js ''url'', JStr (js ''#'')),
        (js ''salary'', JStr (js ''Not specified'')),
        (js ''posted'', JStr (js ''1 week ago''))],
      JObj
       [(js ''id'', JNum 104),
        (js ''title'', JStr (js ''Hotel Front Desk Intern (Summer)'')),
        (js ''company'', JStr (js ''Imperial Palace Hotel'')),
        (js ''location'', JStr (js ''Vienna, 1070'')),
        (js ''type'', JStr (js ''Internship'')),
        (js ''description'', JStr (js ''Join our hospitality team for a 3-month paid ''
                        @ js ''internship. Focus on guest relations and check-in ''
                        @ js ''procedures.'')),
        (js ''url'', JStr (js ''#'')),
        (js ''salary'', JStr ([0x20AC] @ js ''800/month'')),
        (js ''posted'', JStr (js ''5 days ago''))]]"

definition cannedInsights :: jsstring where
  "cannedInsights =
     [0xD83D, 0xDCCA] @ js '' AI Analysis: Based on the **Fallback Data** ''
     @ js ''provided, the results are a good match for '' @ [0x22]
     @ js ''English-speaking entry-level'' @ [0x22]
     @ js '' roles in the hospitality and administrative ''
     @ js ''sectors. You successfully targeted specific ''
     @ js ''locations like M'' @ [0xF6]
     @ js ''dling and Vienna.\<newline>        \<newline>'' @ [0xD83D, 0xDCA1]
     @ js '' Tip: Since the job market for English-only ''
     @ js ''roles is competitive, consider broadening your ''
     @ js ''search terms to include roles that may be bilingual ''
     @ js ''but accept English as the primary internal language.\<newline>\<newline>''
     @ [0xD83D, 0xDD11]
     @ js '' Suggested keywords to add: 'customer support', '' @ [0x27]
     @ js ''Bilingual', 'office assistant', 'minijob'\<newline>'' @ [0x274C]
     @ js '' Consider removing: 'fast food' (unless specifically ''
     @ js ''desired), 'animal care' (if you want to focus ''
     @ js ''on office/hospitality)''"

section \<open>The application that calls the model API itself\<close>

text \<open>The \<open>App\<close> module in \<open>src/api/search.js\<close>, lines 276 to 945.\<close>

definition MODEL :: jsstring where
  "MODEL = js ''gemini-2.5-flash-preview-05-20''"

definition BASE_API_URL :: jsstring where
  "BASE_API_URL = js ''https://generativelanguage.googleapis.com/v1beta/models''"

definition API_ENDPOINT :: jsstring where
  "API_ENDPOINT = BASE_API_URL @ js ''/'' @ MODEL @ js '':generateContent''"

definition JOB_SCHEMA_items :: json where
  "JOB_SCHEMA_items =
     JObj
       [(js ''type'', JStr (js ''OBJECT'')),
        (js ''properties'', JObj
          [(js ''id'', JObj [(js ''type'', JStr (js ''NUMBER'')),
              (js ''description'', JStr (js ''A unique identifier for the job.''))]),
           (js ''title'', JObj [(js ''type'', JStr (js ''STRING'')),
              (js ''description'', JStr (js ''The title of the job listing.''))]),
           (js ''company'', JObj [(js ''type'', JStr (js ''STRING'')),
              (js ''description'', JStr (js ''The hiring company name.''))]),
           (js ''location'', JObj [(js ''type'', JStr (js ''STRING'')),
              (js ''description'', JStr (js ''The job location.''))]),
           (js ''type'', JObj [(js ''type'', JStr (js ''STRING'')),
              (js ''description'', JStr (js ''Job type (e.g., Full-time, Part-time).''))]),
           (js ''description'', JObj [(js ''type'', JStr (js ''STRING'')),
              (js ''description'', JStr (js ''A very brief, one-sentence summary of the role.''))]),
           (js ''url'', JObj [(js ''type'', JStr (js ''STRING'')),
              (js ''description'', JStr (js ''The URL to the original job posting.''))]),
           (js ''salary'', JObj [(js ''type'', JStr (js ''STRING'')),
              (js ''description'', JStr (js ''The listed salary or 'Not specified'.''))]),
           (js ''posted'', JObj [(js ''type'', JStr (js ''STRING'')),
              (js ''description'', JStr (js ''When the job was posted (e.g., '1 day ago').''))])]),
        (js ''required'', JArr
          [JStr (js ''id''), JStr (js ''title''), JStr (js ''company''), JStr (js ''location''), JStr (js ''type''), JStr (js ''description''), JStr (js ''url'')])]"

definition searchSystemPrompt :: "env \<Rightarrow> jsstring" where
  "searchSystemPrompt e =
     js ''You are a highly specialized job search engine ''
     @ js ''for jobs in Austria.\<newline>1. Perform a Google ''
     @ js ''search to find job listings based on the user's ''
     @ js ''detailed query.\<newline>2. CRITICAL: All job ''
     @ js ''listings MUST be located within Austria. Discard ''
     @ js ''any results from other countries, even if the ''
     @ js ''city name matches (e.g., Vienna, USA).\<newline>3. ''
     @ js ''From the valid, Austria-based search results, ''
     @ js ''extract the top 15-20 unique, real job listings ''
     @ js ''that are most relevant to the user's query.\<newline>4. ''
     @ js ''Return ONLY a valid JSON array of objects. Do ''
     @ js ''not include any text, headers, or markdown outside ''
     @ js ''the JSON block.\<newline>4. Each object in the ''
     @ js ''array MUST strictly follow this schema: ''
     @ JSON_stringify e JOB_SCHEMA_items
     @ js ''\<newline>5. If a value for a field (like 'salary' ''
     @ js ''or 'posted') cannot be found, you MUST include ''
     @ js ''the key and set its value to '' @ [0x22] @ js ''Not specified''
     @ [0x22] @ js ''.\<newline>6. The 'id' MUST be a unique number ''
     @ js ''for each job. You can generate it sequentially ''
     @ js ''(e.g., 1, 2, 3).\<newline>7. The 'url' MUST ''
     @ js ''be a direct, absolute URL to the job posting ''
     @ js ''details or application page. Do NOT use a URL ''
     @ js ''to a search results page. If you cannot find ''
     @ js ''a direct link for a job, do not include that ''
     @ js ''job in the results.\<newline>8. Make a best ''
     @ js ''effort to find the 'posted' date (e.g., '1 day ''
     @ js ''ago', '2 weeks ago', 'Posted on May 20, 2024').\<newline>\<newline>Examp''
     @ js ''le of a single job object:\<newline>{'' @ [0x22] @ js ''id''
     @ [0x22] @ js '': 1, '' @ [0x22] @ js ''title'' @ [0x22] @ js '': ''
     @ [0x22] @ js ''Example Job'' @ [0x22] @ js '', '' @ [0x22]
     @ js ''company'' @ [0x22] @ js '': '' @ [0x22] @ js ''Example Corp''
     @ [0x22] @ js '', '' @ [0x22] @ js ''location'' @ [0x22] @ js '': ''
     @ [0x22] @ js ''Vienna, Austria'' @ [0x22] @ js '', '' @ [0x22]
     @ js ''type'' @ [0x22] @ js '': '' @ [0x22] @ js ''Full-time'' @ [0x22]
     @ js '', '' @ [0x22] @ js ''description'' @ [0x22] @ js '': '' @ [0x22]
     @ js ''An example job summary.'' @ [0x22] @ js '', '' @ [0x22]
     @ js ''url'' @ [0x22] @ js '': '' @ [0x22]
     @ js ''https://example.com/job/123'' @ [0x22] @ js '', '' @ [0x22]
     @ js ''salary'' @ [0x22] @ js '': '' @ [0x22, 0x20AC] @ js ''50,000''
     @ [0x22] @ js '', '' @ [0x22] @ js ''posted'' @ [0x22] @ js '': ''
     @ [0x22] @ js ''2 days ago'' @ [0x22] @ js ''}''"

definition insightsSystemPrompt :: jsstring where
  "insightsSystemPrompt =
     js ''You are an expert career counselor. Analyze ''
     @ js ''the provided job search parameters and the search ''
     @ js ''results. Provide a concise, actionable analysis ''
     @ js ''in a friendly tone. Suggest 2-3 new keywords ''
     @ js ''to include, and 1-2 keywords to remove or refine. ''
     @ js ''Use the following format: '' @ [0x27, 0xD83D, 0xDCCA]
     @ js '' AI Analysis:...\<newline>\<newline>'' @ [0xD83D, 0xDCA1]
     @ js '' Tip:...\<newline>\<newline>'' @ [0xD83D, 0xDD11]
     @ js '' Suggested keywords to add: ...\<newline>'' @ [0x274C]
     @ js '' Consider removing: ...'' @ [0x27]"

definition textPart :: "jsstring \<Rightarrow> json" where
  "textPart t = JObj [(js ''parts'', JArr [JObj [(js ''text'', JStr t)]])]"

definition searchPayload :: "env \<Rightarrow> jsstring \<Rightarrow> json" where
  "searchPayload e combinedPrompt =
     JObj [(js ''contents'', JArr [textPart combinedPrompt]),
           (js ''systemInstruction'', textPart (searchSystemPrompt e)),
           (js ''tools'', JArr [JObj [(js ''google_search'', JObj [])]])]"

text \<open>The headers of a request: the key is sent when it is not empty.\<close>

definition contentType :: "(jsstring \<times> jsstring) list" where
  "contentType = [(js ''Content-Type'', js ''application/json'')]"

definition requestHeaders :: "env \<Rightarrow> (jsstring \<times> jsstring) list" where
  "requestHeaders e =
     (if API_KEY e \<noteq> [] then contentType @ [(js ''x-goog-api-key'', API_KEY e)]
      else contentType)"

definition headersObject :: "(jsstring \<times> jsstring) list \<Rightarrow> json" where
  "headersObject hs = JObj (map (\<lambda>(k, v). (k, JStr v)) hs)"

definition maxRetries :: nat where
  "maxRetries = 5"

text \<open>The \<open>try\<close> block of one attempt of the job search (lines 407 to 419).\<close>

definition searchAttempt :: "response \<Rightarrow> jserror + json" where
  "searchAttempt r =
     (case r of
        NetworkFailure msg \<Rightarrow> Inl (JsError msg)
      | HttpResponse status statusText body \<Rightarrow>
          if status = 401 then Inl (JsError (js ''HTTP error! status: 401 (Unauthorized)''))
          else if \<not> ok status then Inl (JsError (js ''HTTP error! status: '' @ digits status))
          else (case body of Inl msg \<Rightarrow> Inl (JsError msg) | Inr result \<Rightarrow> Inr result))"

text \<open>
  The retry loop of \<open>fetchStructuredJobData\<close> (lines 405 to 433), from \<open>attempt\<close> on.
  Its value is the exception it throws or the \<open>result\<close> variable after it (\<open>None\<close>:
  never assigned).
\<close>

function searchLoop ::
  "env \<Rightarrow> jsstring \<Rightarrow> (jsstring \<times> jsstring) list \<Rightarrow> jsstring \<Rightarrow> nat \<Rightarrow> event list
     \<Rightarrow> (jserror + json option) \<times> event list" where
  "searchLoop e url headers body attempt tr =
     (if attempt < maxRetries then
        (case searchAttempt (net e (fetchCount tr)) of
           Inr result \<Rightarrow> (Inr (Some result), tr @ [Fetch url headers body])
         | Inl error \<Rightarrow>
             if String_includes (message error) (js ''401'')
             then (Inl error, tr @ [Fetch url headers body])
             else if attempt = maxRetries - 1
             then (Inl error,
                   tr @ [Fetch url headers body,
                         Console [Text (js ''Max retries reached. Failing.''), Thrown error]])
             else searchLoop e url headers body (attempt + 1)
                    (tr @ [Fetch url headers body, Wait (2 ^ attempt * 1000)]))
      else (Inr None, tr))"
  by pat_completeness auto
termination
  by (relation "measure (\<lambda>(e, url, headers, body, attempt, tr). maxRetries - attempt)") auto

definition fetchStructuredJobData :: "env \<Rightarrow> jsstring \<Rightarrow> event list \<Rightarrow> (jserror + json) \<times> event list" where
  "fetchStructuredJobData e combinedPrompt tr =
     (let payload = searchPayload e combinedPrompt in
      if combinedPrompt = []
      then (Inl (JsError (js ''Payload validation failed: Missing prompt content.'')), tr)
      else
        let finalUrl = API_ENDPOINT;
            headers = requestHeaders e;
            headersForLogging = AList.delete (js ''x-goog-api-key'') headers;
            tr0 = tr @ [Console [Text (js ''Gemini API Request Details (Job Search)'')],
                        Console [Text (js ''Request URL:''), Text finalUrl],
                        Console [Text (js ''Headers:''), Value (Some (headersObject headersForLogging))],
                        Console [Text (js ''Payload:''), Text (JSON_stringify_indent e payload)]]
        in case searchLoop e finalUrl headers (JSON_stringify e payload) 0 tr0 of
             (Inl error, tr1) \<Rightarrow> (Inl error, tr1)
           | (Inr result, tr1) \<Rightarrow>
               if \<not> truthy_opt result
               then (Inl (JsError (js ''API call failed after all retries.'')), tr1)
               else
                 let rawText =
                       optChain (optChain (optChain (optChain (optChain
                         (getProp (the result) (js ''candidates''))
                         (\<lambda>v. getIndex v 0))
                         (\<lambda>v. getProp v (js ''content'')))
                         (\<lambda>v. getProp v (js ''parts'')))
                         (\<lambda>v. getIndex v 0))
                         (\<lambda>v. getProp v (js ''text''))
                 in if \<not> truthy_opt rawText
                    then (Inl (JsError (js ''API response was valid, but contained no content.'')),
                          tr1 @ [Console [Text (js ''API Error: Received API response but found no text content in candidates structure. Full result:''),
                                          Value result]])
                    else
                      let tr2 = tr1 @ [Console [Text (js ''Raw API Text Content Received:''),
                                                Value rawText]]
                      in case rawText of
                           Some (JStr s) \<Rightarrow>
                             (case JSON_parse e (extractJsonFromText s) of
                                Inr parsed \<Rightarrow> (Inr parsed, tr2)
                              | Inl msg \<Rightarrow>
                                  (Inl (JsError (js ''Failed to parse structured job data: The AI returned improperly formatted data.'')),
                                   tr2 @ [Console [Text (js ''JSON Parsing Error:''),
                                                   Thrown (JsError msg)]]))
                         | _ \<Rightarrow> (Inl (JsError (typeErrorMessage e)), tr2))"

record searchParams =
  location :: jsstring
  "keywords" :: jsstring
  excludeKeywords :: jsstring
  jobTypes :: "jsstring list"

definition searchParamsObject :: "searchParams \<Rightarrow> json" where
  "searchParamsObject p =
     JObj [(js ''location'', JStr (location p)),
           (js ''keywords'', JStr (keywords p)),
           (js ''excludeKeywords'', JStr (excludeKeywords p)),
           (js ''jobTypes'', JArr (map JStr (jobTypes p)))]"

text \<open>
  The \<open>try\<close> block of one attempt of the insights call and its retry loop (lines 503 to
  521): a 401 is an error like any other.
\<close>

definition insightsAttempt :: "response \<Rightarrow> jserror + json" where
  "insightsAttempt r =
     (case r of
        NetworkFailure msg \<Rightarrow> Inl (JsError msg)
      | HttpResponse status statusText body \<Rightarrow>
          if \<not> ok status then Inl (JsError (js ''HTTP error! status: '' @ digits status))
          else (case body of Inl msg \<Rightarrow> Inl (JsError msg) | Inr result \<Rightarrow> Inr result))"

function insightsLoop ::
  "env \<Rightarrow> jsstring \<Rightarrow> (jsstring \<times> jsstring) list \<Rightarrow> jsstring \<Rightarrow> nat \<Rightarrow> event list
     \<Rightarrow> (jserror + json option) \<times> event list" where
  "insightsLoop e url headers body attempt tr =
     (if attempt < maxRetries then
        (case insightsAttempt (net e (fetchCount tr)) of
           Inr result \<Rightarrow> (Inr (Some result), tr @ [Fetch url headers body])
         | Inl error \<Rightarrow>
             if attempt = maxRetries - 1
             then (Inl error,
                   tr @ [Fetch url headers body,
                         Console [Text (js ''Max retries reached for insights. Failing.''),
                                  Thrown error]])
             else insightsLoop e url headers body (attempt + 1)
                    (tr @ [Fetch url headers body, Wait (2 ^ attempt * 1000)]))
      else (Inr None, tr))"
  by pat_completeness auto
termination
  by (relation "measure (\<lambda>(e, url, headers, body, attempt, tr). maxRetries - attempt)") auto

declare searchLoop.simps [simp del] insightsLoop.simps [simp del]

text \<open>
  \<open>fetchAIInsights\<close> (lines 461 to 524). Its payload validation cannot fail, since the
  user query starts with a fixed text, and is left out.
\<close>

definition fetchAIInsights ::
  "env \<Rightarrow> searchParams \<Rightarrow> joblisting list \<Rightarrow> bool \<Rightarrow> event list
     \<Rightarrow> (jserror + json option) \<times> event list" where
  "fetchAIInsights e params jobResults isFallback tr =
     (if isFallback then (Inr (Some (JStr cannedInsights)), tr)
      else
        let userQuery =
              js ''Analyze the current search parameters: ''
              @ JSON_stringify e (searchParamsObject params)
              @ js ''. The recent search returned '' @ digits (length jobResults)
              @ js '' jobs. Provide insights based on this context.'';
            payload = JObj [(js ''contents'', JArr [textPart userQuery]),
                            (js ''systemInstruction'', textPart insightsSystemPrompt)]
        in case insightsLoop e API_ENDPOINT (requestHeaders e) (JSON_stringify e payload) 0 tr of
             (Inl error, tr1) \<Rightarrow> (Inl error, tr1)
           | (Inr result, tr1) \<Rightarrow>
               let text =
                     optChain (optChain (optChain (optChain (optChain (optChain
                       result
                       (\<lambda>v. getProp v (js ''candidates'')))
                       (\<lambda>v. getIndex v 0))
                       (\<lambda>v. getProp v (js ''content'')))
                       (\<lambda>v. getProp v (js ''parts'')))
                       (\<lambda>v. getIndex v 0))
                       (\<lambda>v. getProp v (js ''text''))
               in (Inr (if truthy_opt text then text
                        else Some (JStr (js ''No insights generated.''))), tr1))"

text \<open>
  \<open>runSimpleApiTest\<close> (lines 529 to 561): the key is put into the URL, and the URL is
  printed. No code calls this function.
\<close>

definition runSimpleApiTest :: "env \<Rightarrow> event list \<Rightarrow> (jserror + json) \<times> event list" where
  "runSimpleApiTest e tr =
     (let testPrompt = js ''Hello, world!'';
          payload = JObj [(js ''contents'', JArr [textPart testPrompt])];
          finalUrl = API_ENDPOINT @ js ''?key='' @ API_KEY e;
          headers = contentType;
          body = JSON_stringify e payload;
          tr1 = tr @ [Console [Text (js ''Gemini API Request Details (Simple Test)'')],
                      Console [Text (js ''Request URL:''), Text finalUrl],
                      Console [Text (js ''Headers:''), Value (Some (headersObject headers))],
                      Console [Text (js ''Payload:''), Text (JSON_stringify_indent e payload)],
                      Fetch finalUrl headers body]
      in case net e (fetchCount tr) of
           NetworkFailure msg \<Rightarrow> (Inl (JsError msg), tr1)
         | HttpResponse status statusText json \<Rightarrow>
             if \<not> ok status
             then (Inl (JsError (js ''HTTP error! status: '' @ digits status @ js '' ''
                                 @ statusText)), tr1)
             else (case json of Inl msg \<Rightarrow> (Inl (JsError msg), tr1)
                   | Inr v \<Rightarrow> (Inr v, tr1)))"

record appState =
  searchParams :: searchParams
  feedback :: feedback
  isSearching :: bool
  jobs :: "joblisting list"
  showSettings :: bool
  aiInsights :: "json option"
  searchError :: jsstring
  searchProgress :: jsstring
  isFallbackMode :: bool

definition combinedPromptOf :: "searchParams \<Rightarrow> jsstring" where
  "combinedPromptOf p =
     js ''Search for job listings in Austria for an English-speaking entry-level graduate near ''
     @ location p @ js ''.\<newline>Keywords: '' @ keywords p @ js ''. Exclude: ''
     @ excludeKeywords p @ js ''. Job Types: '' @ join (js '', '') (jobTypes p) @ js ''.''"

definition generateAIInsights ::
  "env \<Rightarrow> appState \<Rightarrow> joblisting list \<Rightarrow> bool \<Rightarrow> event list \<Rightarrow> appState \<times> event list" where
  "generateAIInsights e st jobResults isFallback tr =
     (case fetchAIInsights e (searchParams st) jobResults isFallback tr of
        (Inr insights, tr1) \<Rightarrow> (st\<lparr>aiInsights := insights\<rparr>, tr1)
      | (Inl error, tr1) \<Rightarrow>
          (st\<lparr>aiInsights := Some (JStr (js ''Failed to generate insights.''))\<rparr>,
           tr1 @ [Console [Text (js ''Insight generation failed:''), Thrown error]]))"

definition noListingsMessage :: jsstring where
  "noListingsMessage =
     js ''Search completed, but the model could not find or extract any structured job listings based on your criteria. Try broadening your search.''"

definition authenticationFailedMessage :: jsstring where
  "authenticationFailedMessage =
     js ''Authentication Failed (401). The live API key cannot be injected. Showing **Fallback Data** to demonstrate app functionality.''"

definition criticalErrorMessage :: "jsstring \<Rightarrow> jsstring" where
  "criticalErrorMessage msg =
     js ''A critical API error occurred during the search. Showing fallback data. Error: '' @ msg"

text \<open>
  \<open>handleSearch\<close> (lines 625 to 686): the final state, the exception that escapes it (if
  any), and the trace. \<open>searchStage\<close> is its \<open>try\<close> statement, which ends with the results
  to process, the fallback flag and the state.
\<close>

definition searchStage ::
  "env \<Rightarrow> appState \<Rightarrow> event list \<Rightarrow> (json list \<times> bool \<times> appState) \<times> event list" where
  "searchStage e st tr =
     (let st1 = st\<lparr>searchProgress := js ''1/3: Generating comprehensive search query...''\<rparr>;
          combinedPrompt = combinedPromptOf (searchParams st);
          st2 = st1\<lparr>searchProgress :=
                       js ''2/3: Searching Google and extracting structured job data...''\<rparr>
      in case fetchStructuredJobData e combinedPrompt tr of
           (Inr jobResults, tr1) \<Rightarrow>
             (case jobResults of
                JArr (x # xs) \<Rightarrow> ((x # xs, False, st2), tr1)
              | _ \<Rightarrow> ((RICH_FALLBACK_JOBS, True, st2\<lparr>searchError := noListingsMessage\<rparr>), tr1))
         | (Inl error, tr1) \<Rightarrow>
             ((RICH_FALLBACK_JOBS, True,
               st2\<lparr>searchError :=
                      (if String_includes (message error) (js ''HTTP error! status: 401'')
                       then authenticationFailedMessage
                       else criticalErrorMessage (message error))\<rparr>),
              tr1 @ [Console [Text (js ''Search error:''), Thrown error]]))"

definition handleSearch ::
  "env \<Rightarrow> appState \<Rightarrow> event list \<Rightarrow> (appState \<times> jserror option) \<times> event list" where
  "handleSearch e st tr =
     (let st0 = st\<lparr>isSearching := True, jobs := [], searchError := [],
                    aiInsights := Some (JStr []), isFallbackMode := False\<rparr>
      in case searchStage e st0 tr of
           ((jobResults, isFallback, st1), tr1) \<Rightarrow>
             let st2 = st1\<lparr>isFallbackMode := isFallback\<rparr>
             in case mapJobs e 0 jobResults of
                  Inl error \<Rightarrow> ((st2, Some error), tr1)
                | Inr finalJobs \<Rightarrow>
                    let st3 = st2\<lparr>jobs := finalJobs, feedback := Map.empty,
                                   searchProgress := js ''3/3: Generating AI insights...''\<rparr>
                    in case generateAIInsights e st3 finalJobs isFallback tr1 of
                         (st4, tr2) \<Rightarrow>
                           ((st4\<lparr>searchProgress := [], isSearching := False\<rparr>, None), tr2))"

section \<open>The application that calls the serverless functions\<close>

text \<open>
  \<open>src/App.jsx\<close>: its functions have the names of the ones above and are written here
  with the suffix \<open>_serverless\<close>. Its state has one more field, the testing switch.
  \<open>serverlessCall\<close> is what its two fetching functions share: the response is read as
  JSON first, and a response that is not \<open>ok\<close> throws \<open>data.error\<close> or the status.
\<close>

record appState_serverless = appState +
  useFallbackForTesting :: bool

definition serverlessCall :: "response \<Rightarrow> env \<Rightarrow> jserror + json" where
  "serverlessCall r e =
     (case r of
        NetworkFailure msg \<Rightarrow> Inl (JsError msg)
      | HttpResponse status statusText body \<Rightarrow>
          (case body of
             Inl msg \<Rightarrow> Inl (JsError msg)
           | Inr data \<Rightarrow>
               if \<not> ok status then
                 (if data = JNull then Inl (JsError (typeErrorMessage e))
                  else let err = getProp data (js ''error'')
                       in (case (if truthy_opt err then jsString e (the err)
                                 else Inr (js ''HTTP error! status: '' @ digits status)) of
                             Inl typeError \<Rightarrow> Inl typeError
                           | Inr msg \<Rightarrow> Inl (JsError msg)))
               else Inr data))"

definition fetchStructuredJobData_serverless ::
  "env \<Rightarrow> jsstring \<Rightarrow> event list \<Rightarrow> (jserror + json) \<times> event list" where
  "fetchStructuredJobData_serverless e combinedPrompt tr =
     (serverlessCall (net e (fetchCount tr)) e,
      tr @ [Fetch (js ''/api/search'') contentType
              (JSON_stringify e (JObj [(js ''combinedPrompt'', JStr combinedPrompt)]))])"

definition fetchAIInsights_serverless ::
  "env \<Rightarrow> searchParams \<Rightarrow> joblisting list \<Rightarrow> bool \<Rightarrow> event list
     \<Rightarrow> (jserror + json option) \<times> event list" where
  "fetchAIInsights_serverless e params jobResults isFallback tr =
     (if isFallback then (Inr (Some (JStr cannedInsights)), tr)
      else
        let tr1 = tr @ [Fetch (js ''/api/insights'') contentType
                          (JSON_stringify e
                             (JObj [(js ''searchParams'', searchParamsObject params),
                                    (js ''jobResultsCount'', JNum (int (length jobResults)))]))]
        in case serverlessCall (net e (fetchCount tr)) e of
             Inl error \<Rightarrow> (Inl error, tr1)
           | Inr data \<Rightarrow>
               if data = JNull then (Inl (JsError (typeErrorMessage e)), tr1)
               else (Inr (getProp data (js ''insights'')), tr1))"

definition generateAIInsights_serverless ::
  "env \<Rightarrow> appState_serverless \<Rightarrow> joblisting list \<Rightarrow> bool \<Rightarrow> event list
     \<Rightarrow> appState_serverless \<times> event list" where
  "generateAIInsights_serverless e st jobResults isFallback tr =
     (case fetchAIInsights_serverless e (searchParams st) jobResults isFallback tr of
        (Inr insights, tr1) \<Rightarrow> (st\<lparr>aiInsights := insights\<rparr>, tr1)
      | (Inl error, tr1) \<Rightarrow>
          (st\<lparr>aiInsights :=
                 Some (JObj [(js ''analysis'',
                              JStr (js ''Insight generation failed: '' @ message error))])\<rparr>,
           tr1 @ [Console [Text (js ''Insight generation failed:''), Thrown error]]))"

definition noResultsMessage :: jsstring where
  "noResultsMessage =
     js ''No Results Found. The AI could not find any job listings matching your criteria. Try broadening your search terms.''"

definition configurationErrorMessage :: jsstring where
  "configurationErrorMessage =
     js ''Configuration Error: The GEMINI_API_KEY is missing. \<newline>        ''
     @ js ''- If running locally with 'vercel dev', ensure ''
     @ js ''your '.env.development.local' file is correct.\<newline>        ''
     @ js ''- If this is a deployed app, check your Environment ''
     @ js ''Variables in your Vercel project settings.''"

definition criticalErrorMessage_serverless :: "jsstring \<Rightarrow> jsstring" where
  "criticalErrorMessage_serverless msg =
     js ''A critical API error occurred during the search. Error: '' @ msg"

definition testingMessage :: jsstring where
  "testingMessage =
     js ''Displaying hardcoded fallback data as requested by the testing setting.''"

definition searchStage_serverless ::
  "env \<Rightarrow> appState_serverless \<Rightarrow> event list
     \<Rightarrow> (json list \<times> appState_serverless) \<times> event list" where
  "searchStage_serverless e st tr =
     (let st1 = st\<lparr>searchProgress := js ''1/3: Generating comprehensive search query...''\<rparr>;
          combinedPrompt = combinedPromptOf (searchParams st);
          st2 = st1\<lparr>searchProgress :=
                       js ''2/3: Searching Google and extracting structured job data...''\<rparr>
      in case fetchStructuredJobData_serverless e combinedPrompt tr of
           (Inr jobResults, tr1) \<Rightarrow>
             (case jobResults of
                JArr (x # xs) \<Rightarrow> ((x # xs, st2), tr1)
              | _ \<Rightarrow> (([], st2\<lparr>searchError := noResultsMessage\<rparr>), tr1))
         | (Inl error, tr1) \<Rightarrow>
             (([], st2\<lparr>searchError :=
                         (if String_includes (message error) (js ''GEMINI_API_KEY'')
                          then configurationErrorMessage
                          else criticalErrorMessage_serverless (message error))\<rparr>),
              tr1 @ [Console [Text (js ''Search error:''), Thrown error]]))"

definition handleSearch_serverless ::
  "env \<Rightarrow> appState_serverless \<Rightarrow> event list
     \<Rightarrow> (appState_serverless \<times> jserror option) \<times> event list" where
  "handleSearch_serverless e st tr =
     (let st0 = st\<lparr>isSearching := True, jobs := [], searchError := [],
                    aiInsights := Some JNull, isFallbackMode := False\<rparr>
      in if useFallbackForTesting st then
           (let st1 = st0\<lparr>searchProgress := js ''1/1: Loading fallback data for testing...'',
                          isFallbackMode := True\<rparr>
            in case mapJobs e 0 RICH_FALLBACK_JOBS of
                 Inl error \<Rightarrow> ((st1, Some error), tr)
               | Inr fallbackJobs \<Rightarrow>
                   let st2 = st1\<lparr>jobs := fallbackJobs, searchError := testingMessage\<rparr>
                   in case generateAIInsights_serverless e st2 fallbackJobs True tr of
                        (st3, tr1) \<Rightarrow>
                          ((st3\<lparr>isSearching := False, searchProgress := []\<rparr>, None), tr1))
         else
           (case searchStage_serverless e st0 tr of
              ((jobResults, st1), tr1) \<Rightarrow>
                (case mapJobs e 0 jobResults of
                   Inl error \<Rightarrow> ((st1, Some error), tr1)
                 | Inr finalJobs \<Rightarrow>
                     let st2 = st1\<lparr>jobs := finalJobs, feedback := Map.empty\<rparr>
                     in if length finalJobs > 0 then
                          (case generateAIInsights_serverless e
                                  (st2\<lparr>searchProgress := js ''3/3: Generating AI insights...''\<rparr>)
                                  finalJobs False tr1 of
                             (st3, tr2) \<Rightarrow>
                               ((st3\<lparr>searchProgress := [], isSearching := False\<rparr>, None), tr2))
                        else ((st2\<lparr>searchProgress := [], isSearching := False\<rparr>, None), tr1))))"

section \<open>What the claims speak of\<close>

text \<open>The events of a trace that are not console output, and the delays of a trace.\<close>

fun isConsole :: "event \<Rightarrow> bool" where
  "isConsole (Console args) = True"
| "isConsole _ = False"

definition network :: "event list \<Rightarrow> event list" where
  "network tr = filter (\<lambda>ev. \<not> isConsole ev) tr"

fun waits :: "event list \<Rightarrow> nat list" where
  "waits [] = []"
| "waits (Wait ms # tr) = ms # waits tr"
| "waits (ev # tr) = waits tr"

text \<open>
  For every call of \<open>fetch\<close> in a trace, in order, the delay that was awaited since the
  call before it (\<open>None\<close>: no delay came before that call).
\<close>

fun fetchDelays :: "nat option \<Rightarrow> event list \<Rightarrow> nat option list" where
  "fetchDelays pending [] = []"
| "fetchDelays pending (Fetch url headers body # tr) = pending # fetchDelays None tr"
| "fetchDelays pending (Wait ms # tr) = fetchDelays (Some ms) tr"
| "fetchDelays pending (Console args # tr) = fetchDelays pending tr"

text \<open>
  \<open>n\<close> attempts, the first of them attempt \<open>a\<close>: after attempt \<open>k\<close> and before attempt
  \<open>k + 1\<close> comes a delay of \<open>2 ^ k\<close> seconds; nothing comes before the first attempt or
  after the last.
\<close>

definition retryFrom :: "event \<Rightarrow> nat \<Rightarrow> nat \<Rightarrow> event list" where
  "retryFrom f a n = concat (map (\<lambda>k. [f, Wait (2 ^ k * 1000)]) [a..<a + n - 1]) @ [f]"

text \<open>What a retry loop yields when the attempt it stops at has the outcome \<open>r\<close>.\<close>

definition loopOutcome :: "jserror + json \<Rightarrow> jserror + json option" where
  "loopOutcome r = (case r of Inl err \<Rightarrow> Inl err | Inr v \<Rightarrow> Inr (Some v))"

text \<open>The fallback dataset after post-processing: every id is the string of its number.\<close>

definition fallbackListings :: "joblisting list" where
  "fallbackListings =
     map2 (\<lambda>sid job. AList.update (js ''id'') (JStr (js sid)) (spreadProps job))
       [''101'', ''102'', ''103'', ''104''] RICH_FALLBACK_JOBS"

text \<open>
  The live edge of a search: the pipeline returned an array that is not empty. Every
  other outcome, an exception of any stage or another value, is the fallback edge.
\<close>

fun liveResults :: "jserror + json \<Rightarrow> bool" where
  "liveResults (Inr (JArr (x # xs))) = True"
| "liveResults _ = False"

fun diagnostic :: "jserror + json \<Rightarrow> jsstring" where
  "diagnostic (Inl err) =
     (if String_includes (message err) (js ''HTTP error! status: 401'')
      then authenticationFailedMessage else criticalErrorMessage (message err))"
| "diagnostic (Inr v) = noListingsMessage"

fun diagnostic_serverless :: "jserror + json \<Rightarrow> jsstring" where
  "diagnostic_serverless (Inl err) =
     (if String_includes (message err) (js ''GEMINI_API_KEY'')
      then configurationErrorMessage else criticalErrorMessage_serverless (message err))"
| "diagnostic_serverless (Inr v) = noResultsMessage"

fun errorLog :: "jserror + json \<Rightarrow> event list" where
  "errorLog (Inl err) = [Console [Text (js ''Search error:''), Thrown err]]"
| "errorLog (Inr v) = []"



text \<open>What the claims about the link speak of.\<close>

definition absoluteHttpUrl :: "json option \<Rightarrow> bool" where
  "absoluteHttpUrl u =
     (case u of
        Some (JStr s) \<Rightarrow> prefix (js ''http://'') s \<or> prefix (js ''https://'') s
      | _ \<Rightarrow> False)"

definition urlIsText :: "json option \<Rightarrow> bool" where
  "urlIsText u = (case u of None \<Rightarrow> True | Some (JStr s) \<Rightarrow> True | Some v \<Rightarrow> \<not> truthy v)"

definition actionable :: "link \<Rightarrow> bool" where
  "actionable l \<longleftrightarrow> \<not> ariaDisabled l \<and> \<not> preventsDefault l"

definition inert :: "link \<Rightarrow> bool" where
  "inert l \<longleftrightarrow> ariaDisabled l \<and> preventsDefault l"

text \<open>Two applications of a state update in succession; an exception ends them.\<close>

definition applyTwice :: "('s \<Rightarrow> jserror + 's) \<Rightarrow> 's \<Rightarrow> jserror + 's" where
  "applyTwice update s = (case update s of Inl err \<Rightarrow> Inl err | Inr s' \<Rightarrow> update s')"

definition jobIds :: "joblisting list \<Rightarrow> json option list" where
  "jobIds listings = map (\<lambda>job. map_of job (js ''id'')) listings"

text \<open>Concrete inputs for the examples.\<close>

definition env0 :: env where
  "env0 = \<lparr>API_KEY = js ''SECRET'', net = (\<lambda>n. NetworkFailure (js ''Failed to fetch'')),
           JSON_parse = (\<lambda>s. Inl (js ''Unexpected token'')), JSON_stringify = (\<lambda>v. []),
           JSON_stringify_indent = (\<lambda>v. []), Number_toString = (\<lambda>v. []),
           typeErrorMessage = js ''not a function''\<rparr>"

text \<open>One server error, then a success.\<close>

definition envRetry :: env where
  "envRetry = env0\<lparr>net := (\<lambda>n. if n = 0
                   then HttpResponse 500 (js ''Internal Server Error'') (Inl [])
                   else HttpResponse 200 (js ''OK'') (Inr JNull))\<rparr>"

text \<open>Every call is answered with 401.\<close>

definition env401 :: env where
  "env401 = env0\<lparr>net := (\<lambda>n. HttpResponse 401 (js ''Unauthorized'') (Inr JNull))\<rparr>"

text \<open>The model answers with the empty array.\<close>

definition envEmpty :: env where
  "envEmpty = env0\<lparr>net := (\<lambda>n. HttpResponse 200 (js ''OK'')
                     (Inr (JObj [(js ''candidates'', JArr [JObj [(js ''content'',
                        textPart (js ''[]''))]])]))),
                   JSON_parse := (\<lambda>s. if s = js ''[]'' then Inr (JArr [])
                                        else Inl (js ''Unexpected token''))\<rparr>"


definition params0 :: searchParams where
  "params0 = \<lparr>location = js ''Vienna'', keywords = js ''intern'', excludeKeywords = [],
              jobTypes = [js ''Internship'']\<rparr>"

definition state0 :: appState where
  "state0 = \<lparr>searchParams = params0, feedback = Map.empty, isSearching = False, jobs = [],
             showSettings = False, aiInsights = Some (JStr []), searchError = [],
             searchProgress = [], isFallbackMode = False\<rparr>"

definition state0_serverless :: appState_serverless where
  "state0_serverless =
     \<lparr>searchParams = params0, feedback = Map.empty, isSearching = False, jobs = [],
      showSettings = False, aiInsights = Some JNull, searchError = [],
      searchProgress = [], isFallbackMode = False, useFallbackForTesting = False\<rparr>"

definition job1 :: joblisting where
  "job1 = [(js ''id'', JStr (js ''1'')), (js ''url'', JStr (js ''#''))]"

definition job2 :: joblisting where
  "job2 = [(js ''id'', JStr (js ''2'')), (js ''url'', JStr (js ''https://e.co/1''))]"

section \<open>Verified properties\<close>

subsection \<open>Traces and the retry loops\<close>

lemma fetchCount_append [simp]: "fetchCount (tr @ tr') = fetchCount tr + fetchCount tr'"
  by (simp add: fetchCount_def)

lemma fetchCount_simps [simp]:
  "fetchCount [] = 0"
  "fetchCount (Fetch u h b # tr) = Suc (fetchCount tr)"
  "fetchCount (Wait ms # tr) = fetchCount tr"
  "fetchCount (Console a # tr) = fetchCount tr"
  by (simp_all add: fetchCount_def)

lemma network_simps [simp]:
  "network [] = []"
  "network (Fetch u h b # tr) = Fetch u h b # network tr"
  "network (Wait ms # tr) = Wait ms # network tr"
  "network (Console a # tr) = network tr"
  "network (tr @ tr') = network tr @ network tr'"
  by (simp_all add: network_def)

lemma waits_append [simp]: "waits (tr @ tr') = waits tr @ waits tr'"
  by (induction tr rule: waits.induct) simp_all

lemma fetchDelays_network: "fetchDelays p (network tr) = fetchDelays p tr"
  by (induction p tr rule: fetchDelays.induct) simp_all

lemma retryFrom_one [simp]: "retryFrom f a (Suc 0) = [f]"
  by (simp add: retryFrom_def)

lemma retryFrom_Suc:
  "0 < n \<Longrightarrow> retryFrom f a (Suc n) = [f, Wait (2 ^ a * 1000)] @ retryFrom f (Suc a) n"
  by (cases n) (simp_all add: retryFrom_def upt_rec [of a])

lemma fetchDelays_retryFrom:
  "0 < n \<Longrightarrow> fetchDelays p (retryFrom (Fetch u h b) a n)
     = p # map (\<lambda>k. Some (2 ^ k * 1000)) [a..<a + n - 1]"
proof (induction n arbitrary: a p)
  case 0
  then show ?case by simp
next
  case (Suc n)
  show ?case
  proof (cases n)
    case 0
    then show ?thesis by simp
  next
    case (Suc m)
    with Suc.IH [of "Some (2 ^ a * 1000)" "Suc a"] show ?thesis
      by (simp add: retryFrom_Suc upt_rec [of a])
  qed
qed

lemma includes_401: "String_includes (js ''HTTP error! status: 401 (Unauthorized)'') (js ''401'')"
  by (simp add: js_def)

lemma includes_status_401:
  "String_includes (js ''HTTP error! status: 401 (Unauthorized)'') (js ''HTTP error! status: 401'')"
  by (simp add: js_def)

lemma searchAttempt_401:
  "searchAttempt (HttpResponse 401 s b) = Inl (JsError (js ''HTTP error! status: 401 (Unauthorized)''))"
  by (simp add: searchAttempt_def)

lemma searchLoop_401:
  assumes "net e (fetchCount tr) = HttpResponse 401 s body" "attempt < maxRetries"
  shows "searchLoop e u h b attempt tr
           = (Inl (JsError (js ''HTTP error! status: 401 (Unauthorized)'')), tr @ [Fetch u h b])"
  using assms by (subst searchLoop.simps) (simp add: searchAttempt_401 includes_401)

lemma searchLoop_shape:
  "attempt < maxRetries \<Longrightarrow>
   \<exists>n added. searchLoop e u h b attempt tr
        = (loopOutcome (searchAttempt (net e (fetchCount tr + n - 1))), tr @ added)
      \<and> 1 \<le> n \<and> attempt + n \<le> maxRetries
      \<and> network added = retryFrom (Fetch u h b) attempt n"
proof (induction e u h b attempt tr rule: searchLoop.induct)
  case (1 e u h b attempt tr)
  show ?case
  proof (cases "searchAttempt (net e (fetchCount tr))")
    case (Inr result)
    with "1.prems" have "searchLoop e u h b attempt tr = (Inr (Some result), tr @ [Fetch u h b])"
      by (subst searchLoop.simps) simp
    with Inr "1.prems" show ?thesis
      by (intro exI [of _ 1] exI [of _ "[Fetch u h b]"]) (simp add: loopOutcome_def)
  next
    case (Inl error)
    show ?thesis
    proof (cases "String_includes (message error) (js ''401'') \<or> attempt = maxRetries - 1")
      case True
      with Inl "1.prems" have "\<exists>added. searchLoop e u h b attempt tr = (Inl error, tr @ added)
          \<and> network added = [Fetch u h b]"
        by (subst searchLoop.simps) auto
      with Inl "1.prems" show ?thesis
        by (intro exI [of _ 1]) (auto simp: loopOutcome_def)
    next
      case False
      let ?tr = "tr @ [Fetch u h b, Wait (2 ^ attempt * 1000)]"
      from False "1.prems" have next_ok: "attempt + 1 < maxRetries" by auto
      from False Inl "1.prems" have unfold:
        "searchLoop e u h b attempt tr = searchLoop e u h b (attempt + 1) ?tr"
        by (subst searchLoop.simps) simp
      from "1.IH" [OF "1.prems" Inl _ _ next_ok] False
      obtain n added where step:
        "searchLoop e u h b (attempt + 1) ?tr
           = (loopOutcome (searchAttempt (net e (fetchCount ?tr + n - 1))), ?tr @ added)"
        "1 \<le> n" "attempt + 1 + n \<le> maxRetries"
        "network added = retryFrom (Fetch u h b) (attempt + 1) n"
        by auto
      from step(2) have idx: "fetchCount ?tr + n - 1 = fetchCount tr + Suc n - 1" by simp
      show ?thesis
        apply (rule exI [of _ "Suc n"])
        apply (rule exI [of _ "[Fetch u h b, Wait (2 ^ attempt * 1000)] @ added"])
        using step unfold idx
        by (simp add: retryFrom_Suc)
    qed
  qed
qed

lemma insightsLoop_shape:
  "attempt < maxRetries \<Longrightarrow>
   \<exists>n added. insightsLoop e u h b attempt tr
        = (loopOutcome (insightsAttempt (net e (fetchCount tr + n - 1))), tr @ added)
      \<and> 1 \<le> n \<and> attempt + n \<le> maxRetries
      \<and> network added = retryFrom (Fetch u h b) attempt n"
proof (induction e u h b attempt tr rule: insightsLoop.induct)
  case (1 e u h b attempt tr)
  show ?case
  proof (cases "insightsAttempt (net e (fetchCount tr))")
    case (Inr result)
    with "1.prems" have "insightsLoop e u h b attempt tr = (Inr (Some result), tr @ [Fetch u h b])"
      by (subst insightsLoop.simps) simp
    with Inr "1.prems" show ?thesis
      by (intro exI [of _ 1] exI [of _ "[Fetch u h b]"]) (simp add: loopOutcome_def)
  next
    case (Inl error)
    show ?thesis
    proof (cases "attempt = maxRetries - 1")
      case True
      with Inl "1.prems" have "\<exists>added. insightsLoop e u h b attempt tr = (Inl error, tr @ added)
          \<and> network added = [Fetch u h b]"
        by (subst insightsLoop.simps) auto
      with Inl "1.prems" show ?thesis
        by (intro exI [of _ 1]) (auto simp: loopOutcome_def)
    next
      case False
      let ?tr = "tr @ [Fetch u h b, Wait (2 ^ attempt * 1000)]"
      from False "1.prems" have next_ok: "attempt + 1 < maxRetries" by auto
      from False Inl "1.prems" have unfold:
        "insightsLoop e u h b attempt tr = insightsLoop e u h b (attempt + 1) ?tr"
        by (subst insightsLoop.simps) simp
      from "1.IH" [OF "1.prems" Inl False next_ok]
      obtain n added where step:
        "insightsLoop e u h b (attempt + 1) ?tr
           = (loopOutcome (insightsAttempt (net e (fetchCount ?tr + n - 1))), ?tr @ added)"
        "1 \<le> n" "attempt + 1 + n \<le> maxRetries"
        "network added = retryFrom (Fetch u h b) (attempt + 1) n"
        by auto
      from step(2) have idx: "fetchCount ?tr + n - 1 = fetchCount tr + Suc n - 1" by simp
      show ?thesis
        apply (rule exI [of _ "Suc n"])
        apply (rule exI [of _ "[Fetch u h b, Wait (2 ^ attempt * 1000)] @ added"])
        using step unfold idx
        by (simp add: retryFrom_Suc)
    qed
  qed
qed

lemma searchLoop_envRetry:
  "searchLoop envRetry u h b 0 [] = (Inr (Some JNull), [Fetch u h b, Wait 1000, Fetch u h b])"
  apply (subst searchLoop.simps)
  apply (simp add: envRetry_def env0_def maxRetries_def searchAttempt_def ok_def digits.simps js_def)
  apply (subst searchLoop.simps)
  apply (simp add: envRetry_def env0_def maxRetries_def searchAttempt_def ok_def js_def)
  done

subsection \<open>The fallback data and the two searches\<close>

lemma digits_ids:
  "digits 101 = js ''101''" "digits 102 = js ''102''" "digits 103 = js ''103''"
  "digits 104 = js ''104''"
  by (simp_all add: digits.simps js_def)

lemma id_neq_url: "js ''url'' \<noteq> js ''id''" "js ''id'' \<noteq> js ''url''"
  by (simp_all add: js_def)

lemma brackets_nonempty: "js ''[]'' \<noteq> []" "js ''http://'' \<noteq> []" "js ''https://'' \<noteq> []"
  by (simp_all add: js_def)

lemma mapJobs_fallback: "mapJobs e 0 RICH_FALLBACK_JOBS = Inr fallbackListings"
  by (simp add: RICH_FALLBACK_JOBS_def fallbackListings_def processJob_def truthy_opt_def
      numberToString_def digits_ids Let_def)

lemma jobIds_fallback:
  "jobIds fallbackListings = map (\<lambda>s. Some (JStr (js s))) [''101'', ''102'', ''103'', ''104'']"
  by (simp add: RICH_FALLBACK_JOBS_def fallbackListings_def jobIds_def)

lemma fallbackListings_nonempty: "fallbackListings \<noteq> []"
  by (simp add: fallbackListings_def RICH_FALLBACK_JOBS_def)

lemma combinedPrompt_nonempty: "combinedPromptOf p \<noteq> []"
  by (simp add: combinedPromptOf_def js_def)

lemma generateAIInsights_fallback:
  "generateAIInsights e st listings True tr = (st\<lparr>aiInsights := Some (JStr cannedInsights)\<rparr>, tr)"
  by (simp add: generateAIInsights_def fetchAIInsights_def)

lemma searchStage_fallback:
  assumes "fetchStructuredJobData e (combinedPromptOf (searchParams st)) tr = (r, tr1)"
    and "\<not> liveResults r"
  shows "searchStage e st tr
     = ((RICH_FALLBACK_JOBS, True,
         st\<lparr>searchProgress := js ''2/3: Searching Google and extracting structured job data...'',
            searchError := diagnostic r\<rparr>), tr1 @ errorLog r)"
proof (cases r)
  case (Inl err)
  with assms show ?thesis by (simp add: searchStage_def Let_def)
next
  case (Inr v)
  with assms(2) have "\<nexists>x xs. v = JArr (x # xs)" by auto
  with Inr assms(1) show ?thesis
    by (auto simp: searchStage_def Let_def split: json.splits list.splits)
qed

lemma handleSearch_fallback:
  assumes "fetchStructuredJobData e (combinedPromptOf (searchParams st)) tr = (r, tr1)"
    and "\<not> liveResults r"
  shows "handleSearch e st tr
     = ((st\<lparr>feedback := Map.empty, isSearching := False, jobs := fallbackListings,
             aiInsights := Some (JStr cannedInsights), searchError := diagnostic r,
             searchProgress := [], isFallbackMode := True\<rparr>, None), tr1 @ errorLog r)"
  using assms
  by (simp add: handleSearch_def Let_def searchStage_fallback mapJobs_fallback
      generateAIInsights_fallback)

lemma fetchStructuredJobData_401:
  assumes "net e (fetchCount tr) = HttpResponse 401 s body" "p \<noteq> []"
  shows "\<exists>log. fetchStructuredJobData e p tr
           = (Inl (JsError (js ''HTTP error! status: 401 (Unauthorized)'')),
              tr @ log @ [Fetch API_ENDPOINT (requestHeaders e) (JSON_stringify e (searchPayload e p))])
         \<and> fetchCount log = 0 \<and> waits log = []"
proof -
  let ?log = "[Console [Text (js ''Gemini API Request Details (Job Search)'')],
               Console [Text (js ''Request URL:''), Text API_ENDPOINT],
               Console [Text (js ''Headers:''),
                 Value (Some (headersObject (AList.delete (js ''x-goog-api-key'') (requestHeaders e))))],
               Console [Text (js ''Payload:''), Text (JSON_stringify_indent e (searchPayload e p))]]"
  have "net e (fetchCount (tr @ ?log)) = HttpResponse 401 s body"
    using assms(1) by simp
  from searchLoop_401 [OF this, of 0] assms(2) show ?thesis
    by (intro exI [of _ ?log]) (simp add: fetchStructuredJobData_def Let_def maxRetries_def)
qed

lemma generateAIInsights_serverless_fallback:
  "generateAIInsights_serverless e st listings True tr
     = (st\<lparr>aiInsights := Some (JStr cannedInsights)\<rparr>, tr)"
  by (simp add: generateAIInsights_serverless_def fetchAIInsights_serverless_def)

lemma handleSearch_serverless_forced:
  assumes "useFallbackForTesting st"
  shows "handleSearch_serverless e st tr
     = ((st\<lparr>isSearching := False, jobs := fallbackListings,
             aiInsights := Some (JStr cannedInsights), searchError := testingMessage,
             searchProgress := [], isFallbackMode := True\<rparr>, None), tr)"
  using assms
  by (simp add: handleSearch_serverless_def Let_def mapJobs_fallback
      generateAIInsights_serverless_fallback)

lemma searchStage_serverless_empty:
  assumes "fetchStructuredJobData_serverless e (combinedPromptOf (searchParams st)) tr = (r, tr1)"
    and "\<not> liveResults r"
  shows "searchStage_serverless e st tr
     = (([], st\<lparr>searchProgress := js ''2/3: Searching Google and extracting structured job data...'',
            searchError := diagnostic_serverless r\<rparr>), tr1 @ errorLog r)"
proof (cases r)
  case (Inl err)
  with assms show ?thesis by (simp add: searchStage_serverless_def Let_def)
next
  case (Inr v)
  with assms(2) have "\<nexists>x xs. v = JArr (x # xs)" by auto
  with Inr assms(1) show ?thesis
    by (auto simp: searchStage_serverless_def Let_def split: json.splits list.splits)
qed

lemma handleSearch_serverless_empty:
  assumes "\<not> useFallbackForTesting st"
    and "fetchStructuredJobData_serverless e (combinedPromptOf (searchParams st)) tr = (r, tr1)"
    and "\<not> liveResults r"
  shows "handleSearch_serverless e st tr
     = ((st\<lparr>feedback := Map.empty, isSearching := False, jobs := [],
             aiInsights := Some JNull, searchError := diagnostic_serverless r,
             searchProgress := [], isFallbackMode := False\<rparr>, None), tr1 @ errorLog r)"
  using assms
  by (simp add: handleSearch_serverless_def Let_def searchStage_serverless_empty)

lemma messages_distinct:
  "authenticationFailedMessage \<noteq> noListingsMessage"
  "criticalErrorMessage m \<noteq> authenticationFailedMessage"
  "criticalErrorMessage m \<noteq> noListingsMessage"
  "configurationErrorMessage \<noteq> noResultsMessage"
  "criticalErrorMessage_serverless m \<noteq> configurationErrorMessage"
  "criticalErrorMessage_serverless m \<noteq> noResultsMessage"
  by (simp_all add: authenticationFailedMessage_def noListingsMessage_def criticalErrorMessage_def
      configurationErrorMessage_def noResultsMessage_def criticalErrorMessage_serverless_def js_def)

lemma fetch_serverless_env0:
  "fetchStructuredJobData_serverless env0 p []
     = (Inl (JsError (js ''Failed to fetch'')),
        [Fetch (js ''/api/search'') contentType
           (JSON_stringify env0 (JObj [(js ''combinedPrompt'', JStr p)]))])"
  by (simp add: fetchStructuredJobData_serverless_def serverlessCall_def env0_def)

lemma extract_brackets: "extractJsonFromText (js ''[]'') = js ''[]''"
  by (simp add: extractJsonFromText_def markdownAt_def arrayAt_def lit_def opt_lit_def fence_def
      accept_def String_trim_def trimStart_def trimEnd_def isWhiteSpace_def js_def)

lemma searchLoop_envEmpty:
  "fetchCount tr = 0 \<Longrightarrow> searchLoop envEmpty u h b 0 tr
     = (Inr (Some (JObj [(js ''candidates'', JArr [JObj [(js ''content'',
                        textPart (js ''[]''))]])])), tr @ [Fetch u h b])"
  by (subst searchLoop.simps)
    (simp add: envEmpty_def env0_def maxRetries_def searchAttempt_def ok_def)

lemma fetchStructuredJobData_envEmpty:
  "p \<noteq> [] \<Longrightarrow> fst (fetchStructuredJobData envEmpty p []) = Inr (JArr [])"
  apply (simp add: fetchStructuredJobData_def Let_def searchLoop_envEmpty truthy_opt_def textPart_def)
  apply (simp add: id_neq_url js_def [of "''candidates''"] js_def [of "''content''"]
      js_def [of "''parts''"] js_def [of "''text''"] extract_brackets envEmpty_def env0_def
      brackets_nonempty)
  done

lemma handleFeedback_apply:
  "propertyKey e (map_of job (js ''id'')) = Inr key \<Longrightarrow>
   handleFeedback e fb job t =
     Inr (if fb key = Some t then fb(key := None) else assignProperty fb key t)"
  by (simp add: handleFeedback_def Let_def)

subsection \<open>C1: the extractor\<close>

lemma backtick_not_space [simp]: "\<not> isWhiteSpace 0x60"
  by (simp add: isWhiteSpace_def)

lemma prefix_fence_Cons: "prefix fence (c # cs) \<Longrightarrow> c = 0x60"
  by (simp add: fence_def)

lemma prefix_fence_not_space: "prefix fence (c # cs) \<Longrightarrow> \<not> isWhiteSpace c"
  by (auto dest: prefix_fence_Cons)

lemma not_prefix_fence_Nil [simp]: "\<not> prefix fence []"
  by (simp add: fence_def)

lemma length_fence [simp]: "length fence = 3"
  by (simp add: fence_def)

lemma ws_star_skip:
  assumes "\<And>s. k (dropWhile isWhiteSpace s) = None \<Longrightarrow> k s = None"
  shows "ws_star k s = k (dropWhile isWhiteSpace s)"
proof (induction s)
  case Nil
  show ?case by simp
next
  case (Cons c cs)
  show ?case
  proof (cases "isWhiteSpace c")
    case False
    then show ?thesis by simp
  next
    case True
    show ?thesis
    proof (cases "k (dropWhile isWhiteSpace cs)")
      case None
      with assms [of "c # cs"] True have "k (c # cs) = None" by simp
      with None True Cons show ?thesis by simp
    next
      case (Some r)
      with True Cons show ?thesis by simp
    qed
  qed
qed

lemma closes_eq:
  "ws_star (lit fence accept) s
     = (if prefix fence (dropWhile isWhiteSpace s) then Some () else None)"
proof -
  have "lit fence accept s = None" if "lit fence accept (dropWhile isWhiteSpace s) = None" for s
  proof (cases s)
    case Nil
    then show ?thesis by (simp add: lit_def fence_def)
  next
    case (Cons c cs)
    show ?thesis
    proof (cases "prefix fence s")
      case True
      with Cons have "\<not> isWhiteSpace c" by (auto dest: prefix_fence_not_space)
      with Cons that show ?thesis by simp
    next
      case False
      then show ?thesis by (simp add: lit_def)
    qed
  qed
  then have "ws_star (lit fence accept) s = lit fence accept (dropWhile isWhiteSpace s)"
    by (rule ws_star_skip)
  then show ?thesis by (simp add: lit_def accept_def)
qed

lemma split_first_sound:
  "split_first pat s = Some (a, b) \<Longrightarrow> s = a @ pat @ b"
proof (induction s arbitrary: a)
  case Nil
  then show ?case by (simp split: if_splits)
next
  case (Cons c cs)
  show ?case
  proof (cases "prefix pat (c # cs)")
    case True
    with Cons.prems have "a = []" "b = drop (length pat) (c # cs)" by simp_all
    with True show ?thesis by (metis append_Nil append_eq_conv_conj prefix_def)
  next
    case False
    with Cons.prems obtain a' where "split_first pat cs = Some (a', b)" "a = c # a'"
      by (auto split: prod.splits)
    with Cons.IH show ?thesis by simp
  qed
qed

lemma split_first_complete:
  "split_first pat s = None \<Longrightarrow> s \<noteq> a @ pat @ b"
proof (induction s arbitrary: a)
  case Nil
  then show ?case by (simp split: if_splits)
next
  case (Cons c cs)
  from Cons.prems have np: "\<not> prefix pat (c # cs)" and none: "split_first pat cs = None"
    by (simp_all split: if_splits)
  show ?case
  proof
    assume eq: "c # cs = a @ pat @ b"
    show False
    proof (cases a)
      case Nil
      with eq np show False by (simp add: prefix_def)
    next
      case (Cons x a')
      with eq have "cs = a' @ pat @ b" by simp
      with Cons.IH [OF none, of a'] show False by simp
    qed
  qed
qed

lemma split_first_least:
  "split_first pat s = Some (a, b) \<Longrightarrow> s = a' @ pat @ b' \<Longrightarrow> length a \<le> length a'"
proof (induction s arbitrary: a a')
  case Nil
  then show ?case by (simp split: if_splits)
next
  case (Cons c cs)
  show ?case
  proof (cases "prefix pat (c # cs)")
    case True
    with Cons.prems(1) show ?thesis by simp
  next
    case False
    with Cons.prems(1) obtain a0 where a0: "split_first pat cs = Some (a0, b)" "a = c # a0"
      by (auto split: prod.splits)
    from False Cons.prems(2) obtain a1 where a1: "a' = c # a1" "cs = a1 @ pat @ b'"
      by (cases a') (auto simp: prefix_def)
    from Cons.IH [OF a0(1) a1(2)] a0(2) a1(1) show ?thesis by simp
  qed
qed

lemma rtrim_Cons:
  "trimEnd (c # cs)
     = (if trimEnd cs = [] \<and> isWhiteSpace c then []
        else c # trimEnd cs)"
  by (auto simp: trimEnd_def dropWhile_append dropWhile_eq_Nil_conv)

lemma rtrim_Nil_iff:
  "trimEnd a = [] \<longleftrightarrow> (\<forall>x \<in> set a. isWhiteSpace x)"
  by (simp add: trimEnd_def dropWhile_eq_Nil_conv)

lemma trimEnd_Nil [simp]: "trimEnd [] = []"
  by (simp add: trimEnd_def)

lemma ltrim_append_fence:
  "\<forall>x \<in> set a. isWhiteSpace x \<Longrightarrow> dropWhile isWhiteSpace (a @ fence @ b) = fence @ b"
  by (induction a) (simp_all add: fence_def)

lemma split_first_spaces:
  "prefix fence (dropWhile isWhiteSpace s)
   \<Longrightarrow> \<exists>b. split_first fence s = Some (takeWhile isWhiteSpace s, b)"
proof (induction s)
  case Nil
  then show ?case by simp
next
  case (Cons c cs)
  show ?case
  proof (cases "isWhiteSpace c")
    case True
    then have "\<not> prefix fence (c # cs)" by (auto dest: prefix_fence_not_space)
    with True Cons show ?thesis by auto
  next
    case False
    with Cons.prems show ?thesis by simp
  qed
qed

lemma lazy_capture:
  "map_option fst (lazy_any (ws_star (lit fence accept)) s)
     = map_option (\<lambda>(a, b). trimEnd a) (split_first fence s)"
proof (induction s)
  case Nil
  show ?case by (simp add: closes_eq lit_def fence_def)
next
  case (Cons c cs)
  show ?case
  proof (cases "prefix fence (dropWhile isWhiteSpace (c # cs))")
    case True
    from split_first_spaces [OF True] obtain b
      where "split_first fence (c # cs) = Some (takeWhile isWhiteSpace (c # cs), b)" ..
    moreover have "trimEnd (takeWhile isWhiteSpace (c # cs)) = []"
      unfolding rtrim_Nil_iff by (meson set_takeWhileD)
    moreover have "ws_star (lit fence accept) (c # cs) = Some ()"
      using True by (simp only: closes_eq if_True)
    ultimately show ?thesis
      by (simp only: lazy_any.simps) simp
  next
    case False
    have np: "\<not> prefix fence (c # cs)"
    proof
      assume p: "prefix fence (c # cs)"
      then have "\<not> isWhiteSpace c" by (rule prefix_fence_not_space)
      with p False show False by simp
    qed
    have step: "trimEnd (c # a) = c # trimEnd a"
      if "split_first fence cs = Some (a, b)" for a b
    proof (rule ccontr)
      assume n: "\<not> ?thesis"
      have "trimEnd a = [] \<and> isWhiteSpace c"
        using n unfolding rtrim_Cons by (simp split: if_splits)
      then have all: "\<forall>x \<in> set (c # a). isWhiteSpace x"
        unfolding rtrim_Nil_iff by simp
      from split_first_sound [OF that] have "c # cs = (c # a) @ fence @ b" by simp
      with ltrim_append_fence [OF all, of b] False show False by simp
    qed
    have cl: "ws_star (lit fence accept) (c # cs) = None"
      using False by (simp only: closes_eq if_False)
    have "map_option fst (lazy_any (ws_star (lit fence accept)) (c # cs))
        = map_option ((#) c) (map_option fst (lazy_any (ws_star (lit fence accept)) cs))"
      by (simp only: lazy_any.simps cl) (simp add: option.map_comp comp_def case_prod_unfold)
    also have "\<dots> = map_option ((#) c)
        (map_option (\<lambda>(a, b). trimEnd a) (split_first fence cs))"
      by (simp only: Cons.IH)
    also have "\<dots> = map_option (\<lambda>(a, b). trimEnd a)
        (split_first fence (c # cs))"
      using np step by (cases "split_first fence cs") auto
    finally show ?thesis .
  qed
qed

lemma split_first_ltrim:
  "split_first fence (dropWhile isWhiteSpace s)
     = map_option (\<lambda>(a, b). (dropWhile isWhiteSpace a, b)) (split_first fence s)"
proof (induction s)
  case Nil
  show ?case by (simp add: fence_def)
next
  case (Cons c cs)
  show ?case
  proof (cases "isWhiteSpace c")
    case True
    then have "\<not> prefix fence (c # cs)" by (auto dest: prefix_fence_not_space)
    with True Cons show ?thesis
      by (simp add: option.map_comp comp_def case_prod_unfold)
  next
    case False
    then show ?thesis
      by (simp add: option.map_comp comp_def case_prod_unfold)
  qed
qed

lemma body_eq:
  "ws_star (\<lambda>s. map_option fst (lazy_any (ws_star (lit fence accept)) s)) s
     = map_option (\<lambda>(a, b). String_trim a) (split_first fence s)"
proof -
  let ?k = "\<lambda>s. map_option fst (lazy_any (ws_star (lit fence accept)) s)"
  have "?k s = None" if "?k (dropWhile isWhiteSpace s) = None" for s
    using that unfolding lazy_capture split_first_ltrim by (cases "split_first fence s") auto
  then have "ws_star ?k s = ?k (dropWhile isWhiteSpace s)"
    by (rule ws_star_skip)
  then show ?thesis
    unfolding lazy_capture split_first_ltrim
    by (simp add: option.map_comp comp_def case_prod_unfold String_trim_def trimStart_def)
qed

lemma split_first_json:
  assumes "prefix (js ''json'') s"
  shows "split_first fence s
     = map_option (\<lambda>(a, b). (js ''json'' @ a, b)) (split_first fence (drop 4 s))"
proof -
  from assms obtain rest where s: "s = js ''json'' @ rest" by (auto simp: prefix_def)
  show ?thesis
    unfolding s
    by (simp add: js_def fence_def option.map_comp comp_def case_prod_unfold)
qed

lemma opt_body_eq:
  "opt_lit (js ''json'')
     (ws_star (\<lambda>s. map_option fst (lazy_any (ws_star (lit fence accept)) s))) s
     = map_option (\<lambda>(a, b). String_trim a) (split_first fence (strip_tag s))"
proof (cases "prefix (js ''json'') s")
  case False
  then show ?thesis by (simp add: opt_lit_def lit_def strip_tag_def body_eq)
next
  case True
  have len: "length (js ''json'') = 4" by (simp add: js_def)
  show ?thesis
    using True split_first_json [OF True]
    by (cases "split_first fence (drop 4 s)")
      (simp_all add: opt_lit_def lit_def strip_tag_def body_eq len)
qed

lemma markdownAt_eq:
  "markdownAt s
     = (if prefix fence s
        then map_option (\<lambda>(a, b). String_trim a) (split_first fence (strip_tag (drop 3 s)))
        else None)"
  by (simp add: markdownAt_def lit_def [of fence] opt_body_eq)

lemma split_first_drop:
  "split_first fence (drop n s) \<noteq> None \<Longrightarrow> split_first fence s \<noteq> None"
proof (induction s arbitrary: n)
  case Nil
  then show ?case by simp
next
  case (Cons c cs)
  show ?case
  proof (cases n)
    case 0
    with Cons.prems show ?thesis by simp
  next
    case (Suc m)
    with Cons.prems Cons.IH [of m] show ?thesis by auto
  qed
qed

lemma split_first_strip_tag:
  "split_first fence (strip_tag s) = None \<longleftrightarrow> split_first fence s = None"
  using split_first_json [of s] by (auto simp: strip_tag_def)

lemma String_match_None:
  "(\<And>n. re (drop n s) = None) \<Longrightarrow> String_match re s = None"
proof (induction s)
  case Nil
  from Nil [of 0] show ?case by simp
next
  case (Cons c cs)
  from Cons.prems [of 0] have "re (c # cs) = None" by simp
  moreover have "String_match re cs = None"
  proof (rule Cons.IH)
    fix n
    from Cons.prems [of "Suc n"] show "re (drop n cs) = None" by simp
  qed
  ultimately show ?case by simp
qed

lemma markdownAt_unclosed:
  assumes "split_first fence (drop 3 s) = None"
  shows "markdownAt (drop n s) = None"
proof -
  have "split_first fence (drop n (drop 3 s)) = None"
    using assms split_first_drop [of n "drop 3 s"] by blast
  then have "split_first fence (drop 3 (drop n s)) = None"
    by (simp add: add.commute)
  then show ?thesis by (simp add: markdownAt_eq split_first_strip_tag)
qed

lemma String_match_markdown:
  "String_match markdownAt s = map_option String_trim (fencedInterior s)"
proof (induction s)
  case Nil
  show ?case by (simp add: markdownAt_eq fencedInterior_def fence_def)
next
  case (Cons c cs)
  show ?case
  proof (cases "prefix fence (c # cs)")
    case False
    with Cons show ?thesis
      by (cases "split_first fence cs") (auto simp: markdownAt_eq fencedInterior_def)
  next
    case True
    show ?thesis
    proof (cases "split_first fence (strip_tag (drop 3 (c # cs)))")
      case (Some ab)
      with True show ?thesis
        by (simp add: markdownAt_eq fencedInterior_def case_prod_unfold)
    next
      case None
      then have "split_first fence (drop 3 (c # cs)) = None"
        by (simp only: split_first_strip_tag)
      then have "markdownAt (drop n (c # cs)) = None" for n
        by (rule markdownAt_unclosed)
      then have "String_match markdownAt (c # cs) = None"
        by (rule String_match_None)
      with True None show ?thesis
        by (simp add: fencedInterior_def del: String_match.simps)
    qed
  qed
qed

lemma upto_last_Cons:
  "upToLast x (c # cs)
     = (if upToLast x cs \<noteq> [] then c # upToLast x cs
        else if c = x then [c] else [])"
  by (auto simp: upToLast_def dropWhile_append dropWhile_eq_Nil_conv)

lemma upToLast_Nil_iff: "upToLast x s = [] \<longleftrightarrow> x \<notin> set s"
  by (auto simp: upToLast_def dropWhile_eq_Nil_conv)

lemma upToLast_Nil [simp]: "upToLast x [] = []"
  by (simp add: upToLast_def)

lemma upToLast_split:
  "x \<in> set s \<Longrightarrow> \<exists>before rest. s = before @ x # rest \<and> x \<notin> set rest
     \<and> upToLast x s = before @ [x]"
proof (induction s)
  case Nil
  then show ?case by simp
next
  case (Cons c cs)
  show ?case
  proof (cases "x \<in> set cs")
    case True
    from Cons.IH [OF True] obtain before rest
      where "cs = before @ x # rest" "x \<notin> set rest" "upToLast x cs = before @ [x]" by blast
    then show ?thesis
      by (intro exI [of _ "c # before"] exI [of _ rest])
        (simp add: upToLast_def dropWhile_append)
  next
    case False
    with Cons.prems have "c = x" by simp
    with False show ?thesis
      by (intro exI [of _ "[]"] exI [of _ cs])
        (simp add: upToLast_def dropWhile_append dropWhile_eq_Nil_conv)
  qed
qed

lemma greedy_capture:
  "map_option (\<lambda>(cap, r). cap @ [0x5D]) (greedy_any (lit [0x5D] accept) s)
     = (case upToLast 0x5D s of [] \<Rightarrow> None | inner \<Rightarrow> Some inner)"
proof (induction s)
  case Nil
  show ?case by (simp add: lit_def)
next
  case (Cons c cs)
  have k: "lit [0x5D] accept (c # cs) = (if c = 0x5D then Some () else None)"
    by (simp add: lit_def accept_def)
  show ?case
  proof (cases "greedy_any (lit [0x5D] accept) cs")
    case None
    with Cons have "upToLast 0x5D cs = []"
      by (simp split: list.splits)
    with None show ?thesis
      by (simp only: greedy_any.simps upto_last_Cons k) simp
  next
    case (Some capr)
    with Cons have "upToLast 0x5D cs = fst capr @ [0x5D]"
      by (simp add: case_prod_unfold split: list.splits)
    with Some show ?thesis
      by (simp only: greedy_any.simps upto_last_Cons) (simp add: case_prod_unfold)
  qed
qed

lemma arrayAt_Cons:
  "arrayAt (c # cs)
     = (if c = 0x5B
        then (case upToLast 0x5D cs of [] \<Rightarrow> None | inner \<Rightarrow> Some (c # inner))
        else None)"
proof -
  have "map_option (\<lambda>(cap, r). [0x5B] @ cap @ [0x5D]) (greedy_any (lit [0x5D] accept) cs)
      = map_option ((#) 0x5B)
          (map_option (\<lambda>(cap, r). cap @ [0x5D]) (greedy_any (lit [0x5D] accept) cs))"
    by (simp add: option.map_comp comp_def case_prod_unfold)
  also have "\<dots> = (case upToLast 0x5D cs of [] \<Rightarrow> None | inner \<Rightarrow> Some (0x5B # inner))"
    by (simp only: greedy_capture) (simp split: list.splits)
  finally show ?thesis
    by (cases "c = 0x5B") (simp_all add: arrayAt_def lit_def [of "[0x5B]"] cong: list.case_cong)
qed

lemma arrayAt_Nil [simp]: "arrayAt [] = None"
  by (simp add: arrayAt_def lit_def)

lemma arrayAt_unclosed:
  assumes "0x5D \<notin> set s"
  shows "arrayAt (drop n s) = None"
proof (cases "drop n s")
  case Nil
  then show ?thesis by simp
next
  case (Cons c cs)
  then have "set cs \<subseteq> set s"
    by (metis set_drop_subset set_subset_Cons subset_trans)
  with assms have "upToLast 0x5D cs = []"
    unfolding upToLast_Nil_iff by blast
  with Cons show ?thesis by (simp add: arrayAt_Cons)
qed

lemma String_match_array: "String_match arrayAt s = bracketSpan s"
proof (induction s)
  case Nil
  show ?case by (simp add: bracketSpan_def)
next
  case (Cons c cs)
  show ?case
  proof (cases "c = 0x5B")
    case False
    with Cons show ?thesis by (simp add: arrayAt_Cons bracketSpan_def)
  next
    case True
    show ?thesis
    proof (cases "upToLast 0x5D cs")
      case (Cons x xs)
      with True show ?thesis by (simp add: arrayAt_Cons bracketSpan_def)
    next
      case Nil
      then have "0x5D \<notin> set cs" using upToLast_Nil_iff [of "0x5D" cs] by simp
      then have "arrayAt (drop n cs) = None" for n by (rule arrayAt_unclosed)
      then have "String_match arrayAt cs = None" by (rule String_match_None)
      with True Nil show ?thesis by (simp add: arrayAt_Cons bracketSpan_def)
    qed
  qed
qed

lemma String_trim_idem: "String_trim (String_trim s) = String_trim s"
proof (cases "dropWhile isWhiteSpace s")
  case Nil
  then show ?thesis
    by (simp only: String_trim_def trimStart_def trimEnd_Nil dropWhile.simps)
next
  case (Cons c cs)
  then have c: "\<not> isWhiteSpace c" by (metis hd_dropWhile list.distinct(1) list.sel(1))
  then have "trimEnd (c # cs) = c # trimEnd cs" by (simp add: rtrim_Cons)
  moreover have "trimEnd (c # trimEnd cs) = c # trimEnd cs"
    using c by (simp add: rtrim_Cons) (simp add: trimEnd_def)
  ultimately show ?thesis
    using Cons c by (simp add: String_trim_def trimStart_def)
qed

text \<open>
  C1, as stated, fails in its second step: on a text without a fence the code does not
  return the balanced top-level array. The text \<open>[1] and [2]\<close> has the balanced top-level
  array \<open>[1]\<close>, and the code returns the whole text, from its first opening bracket to
  its last closing bracket.
\<close>

theorem extractJsonFromText_counterexample:
  "extractJsonFromText (js ''[1] and [2]'') = js ''[1] and [2]''
   \<and> extractPayload (js ''[1] and [2]'') = js ''[1]''
   \<and> extractJsonFromText (js ''[1] and [2]'') \<noteq> extractPayload (js ''[1] and [2]'')"
proof -
  have code: "extractJsonFromText (js ''[1] and [2]'') = js ''[1] and [2]''"
    by (simp add: extractJsonFromText_def markdownAt_def arrayAt_def lit_def opt_lit_def
        fence_def accept_def String_trim_def trimStart_def trimEnd_def isWhiteSpace_def js_def)
  have spec: "extractPayload (js ''[1] and [2]'') = js ''[1]''"
    by (simp add: extractPayload_def fencedInterior_def balancedArray_def fence_def
        String_trim_def trimStart_def trimEnd_def isWhiteSpace_def js_def)
  have "js ''[1] and [2]'' \<noteq> js ''[1]''"
    by (simp add: js_def)
  with code spec show ?thesis by simp
qed

text \<open>
  C1, amended in its second step: \<open>extractJsonFromText\<close> returns a string for every
  text, and that string is the one the three steps give, in their order: the trimmed
  interior of the first fenced block (with its optional \<open>json\<close> tag left out), else the
  trimmed substring from the first opening bracket to the last closing bracket after it,
  else the trimmed text.
\<close>

theorem extractJsonFromText_refines:
  "extractJsonFromText text = extractBySpan text"
  by (cases "fencedInterior text")
    (simp_all add: extractJsonFromText_def extractBySpan_def String_match_markdown
      String_match_array String_trim_idem)

theorem extractJsonFromText_refines_witness:
  "extractJsonFromText (js ''Sure, here are some jobs: [1,2,3] enjoy!'') = js ''[1,2,3]''"
proof -
  have "extractBySpan (js ''Sure, here are some jobs: [1,2,3] enjoy!'') = js ''[1,2,3]''"
    by (simp add: extractBySpan_def fencedInterior_def bracketSpan_def fence_def
        String_trim_def trimStart_def trimEnd_def upToLast_def isWhiteSpace_def js_def)
  with extractJsonFromText_refines [of "js ''Sure, here are some jobs: [1,2,3] enjoy!''"]
  show ?thesis by simp
qed

subsection \<open>C2: the retry schedule\<close>

text \<open>
  C2, as stated, fails in one point: the delay that comes before attempt \<open>k\<close> is
  \<open>2 ^ (k - 1)\<close> seconds, not \<open>2 ^ k\<close>. After one failed attempt the loop waits
  \<open>2 ^ 0 * 1000\<close> milliseconds before attempt 1, which is one second and not two.
\<close>

theorem retry_delay_counterexample:
  "fetchDelays None (snd (searchLoop envRetry API_ENDPOINT [] [] 0 [])) ! 1 = Some (2 ^ 0 * 1000)
   \<and> Some ((2::nat) ^ 0 * 1000) \<noteq> Some (2 ^ 1 * 1000)"
  by (simp add: searchLoop_envRetry)

text \<open>
  C2, amended: for every sequence of transport outcomes, each of the two retry loops makes
  \<open>n\<close> attempts with \<open>1 \<le> n \<le> 5\<close>; its calls and delays are exactly attempt 0, a delay
  of \<open>2 ^ 0\<close> seconds, attempt 1, a delay of \<open>2 ^ 1\<close> seconds, and so on up to attempt
  \<open>n - 1\<close>: the delay between attempt \<open>k\<close> and attempt \<open>k + 1\<close> is \<open>2 ^ k\<close> seconds, and
  no delay comes before the first attempt or after the last; the loop ends with the
  outcome of the last attempt it made, so that after a final failed attempt the most
  recent error is the one propagated.
\<close>

theorem retry_schedule:
  "(\<exists>n added.
      searchLoop e u h b 0 tr
        = (loopOutcome (searchAttempt (net e (fetchCount tr + n - 1))), tr @ added)
      \<and> 1 \<le> n \<and> n \<le> 5
      \<and> network added = retryFrom (Fetch u h b) 0 n
      \<and> fetchDelays None added = None # map (\<lambda>k. Some (2 ^ k * 1000)) [0..<n - 1])
   \<and> (\<exists>n added.
      insightsLoop e u h b 0 tr
        = (loopOutcome (insightsAttempt (net e (fetchCount tr + n - 1))), tr @ added)
      \<and> 1 \<le> n \<and> n \<le> 5
      \<and> network added = retryFrom (Fetch u h b) 0 n
      \<and> fetchDelays None added = None # map (\<lambda>k. Some (2 ^ k * 1000)) [0..<n - 1])"
proof
  have pos: "0 < maxRetries" by (simp add: maxRetries_def)
  from searchLoop_shape [OF pos, of e u h b tr]
  obtain n added where s:
    "searchLoop e u h b 0 tr
       = (loopOutcome (searchAttempt (net e (fetchCount tr + n - 1))), tr @ added)"
    "1 \<le> n" "0 + n \<le> maxRetries" "network added = retryFrom (Fetch u h b) 0 n"
    by blast
  have "fetchDelays None added = fetchDelays None (retryFrom (Fetch u h b) 0 n)"
    using fetchDelays_network [of None added] s(4) by simp
  also have "\<dots> = None # map (\<lambda>k. Some (2 ^ k * 1000)) [0..<n - 1]"
    using fetchDelays_retryFrom [of n None u h b 0] s(2) by simp
  finally have "fetchDelays None added = None # map (\<lambda>k. Some (2 ^ k * 1000)) [0..<n - 1]" .
  with s show "\<exists>n added.
      searchLoop e u h b 0 tr
        = (loopOutcome (searchAttempt (net e (fetchCount tr + n - 1))), tr @ added)
      \<and> 1 \<le> n \<and> n \<le> 5
      \<and> network added = retryFrom (Fetch u h b) 0 n
      \<and> fetchDelays None added = None # map (\<lambda>k. Some (2 ^ k * 1000)) [0..<n - 1]"
    by (intro exI [of _ n] exI [of _ added]) (simp add: maxRetries_def)
  from insightsLoop_shape [OF pos, of e u h b tr]
  obtain n added where s:
    "insightsLoop e u h b 0 tr
       = (loopOutcome (insightsAttempt (net e (fetchCount tr + n - 1))), tr @ added)"
    "1 \<le> n" "0 + n \<le> maxRetries" "network added = retryFrom (Fetch u h b) 0 n"
    by blast
  have "fetchDelays None added = fetchDelays None (retryFrom (Fetch u h b) 0 n)"
    using fetchDelays_network [of None added] s(4) by simp
  also have "\<dots> = None # map (\<lambda>k. Some (2 ^ k * 1000)) [0..<n - 1]"
    using fetchDelays_retryFrom [of n None u h b 0] s(2) by simp
  finally have "fetchDelays None added = None # map (\<lambda>k. Some (2 ^ k * 1000)) [0..<n - 1]" .
  with s show "\<exists>n added.
      insightsLoop e u h b 0 tr
        = (loopOutcome (insightsAttempt (net e (fetchCount tr + n - 1))), tr @ added)
      \<and> 1 \<le> n \<and> n \<le> 5
      \<and> network added = retryFrom (Fetch u h b) 0 n
      \<and> fetchDelays None added = None # map (\<lambda>k. Some (2 ^ k * 1000)) [0..<n - 1]"
    by (intro exI [of _ n] exI [of _ added]) (simp add: maxRetries_def)
qed

theorem retry_schedule_witness:
  "\<exists>n added.
      searchLoop envRetry API_ENDPOINT [] [] 0 []
        = (loopOutcome (searchAttempt (net envRetry (fetchCount [] + n - 1))), [] @ added)
      \<and> 1 \<le> n \<and> n \<le> 5
      \<and> network added = retryFrom (Fetch API_ENDPOINT [] []) 0 n
      \<and> fetchDelays None added = None # map (\<lambda>k. Some (2 ^ k * 1000)) [0..<n - 1]"
  using retry_schedule [of envRetry API_ENDPOINT "[]" "[]" "[]"] by blast

subsection \<open>C3: an authentication failure is not retried\<close>









subsection \<open>C4: the fallback edge\<close>

text \<open>
  C4, as stated, fails for the search of \<open>src/App.jsx\<close>: when the call fails, that search
  shows no listings at all and does not mark the outcome as fallback-sourced.
\<close>

theorem fallback_counterexample:
  "jobs (fst (fst (handleSearch_serverless env0 state0_serverless []))) = []
   \<and> \<not> isFallbackMode (fst (fst (handleSearch_serverless env0 state0_serverless [])))
   \<and> fst (fetchStructuredJobData_serverless env0
            (combinedPromptOf (searchParams state0_serverless)) [])
       = Inl (JsError (js ''Failed to fetch''))
   \<and> fallbackListings \<noteq> []"
proof -
  have off: "\<not> useFallbackForTesting state0_serverless"
    by (simp add: state0_serverless_def)
  have dead: "\<not> liveResults (Inl (JsError (js ''Failed to fetch'')))" by simp
  from handleSearch_serverless_empty [OF off fetch_serverless_env0 dead]
  show ?thesis by (simp add: fetch_serverless_env0 fallbackListings_nonempty)
qed

text \<open>
  C4, amended: whenever a stage of the pipeline fails, or parsing yields a value that is
  not an array or an empty array, the search that calls the model API itself substitutes
  the fixed fallback listings, marks the outcome as fallback-sourced and sets a diagnostic
  that tells an authentication failure, any other failure (with its message) and the
  no-results case apart; the search that calls the serverless functions (with the testing
  switch off) instead shows an empty result set, not marked as fallback-sourced, with a
  diagnostic that tells a missing API key, any other failure (with its message) and the
  no-results case apart.
\<close>

theorem fallback_edge:
  "(fetchStructuredJobData e (combinedPromptOf (searchParams st)) tr = (r, tr1)
      \<and> \<not> liveResults r \<longrightarrow>
      (\<exists>st' tr'. handleSearch e st tr = ((st', None), tr')
         \<and> jobs st' = fallbackListings \<and> isFallbackMode st'
         \<and> searchError st' = diagnostic r))
   \<and> (\<not> useFallbackForTesting su
      \<and> fetchStructuredJobData_serverless e (combinedPromptOf (searchParams su)) tr = (r, tr1)
      \<and> \<not> liveResults r \<longrightarrow>
      (\<exists>su' tr'. handleSearch_serverless e su tr = ((su', None), tr')
         \<and> jobs su' = [] \<and> \<not> isFallbackMode su'
         \<and> searchError su' = diagnostic_serverless r))
   \<and> authenticationFailedMessage \<noteq> noListingsMessage
   \<and> criticalErrorMessage m \<noteq> authenticationFailedMessage
   \<and> criticalErrorMessage m \<noteq> noListingsMessage
   \<and> configurationErrorMessage \<noteq> noResultsMessage
   \<and> criticalErrorMessage_serverless m \<noteq> configurationErrorMessage
   \<and> criticalErrorMessage_serverless m \<noteq> noResultsMessage"
  by (simp add: handleSearch_fallback handleSearch_serverless_empty messages_distinct)

theorem fallback_edge_witness:
  "(\<exists>st' tr'. handleSearch env401 state0 [] = ((st', None), tr')
      \<and> jobs st' = fallbackListings \<and> isFallbackMode st'
      \<and> searchError st' = authenticationFailedMessage)
   \<and> (\<exists>su' tr'. handleSearch_serverless env0 state0_serverless [] = ((su', None), tr')
      \<and> jobs su' = [] \<and> \<not> isFallbackMode su'
      \<and> searchError su' = criticalErrorMessage_serverless (js ''Failed to fetch''))"
proof -
  let ?r = "Inl (JsError (js ''HTTP error! status: 401 (Unauthorized)'')) :: jserror + json"
  let ?s = "Inl (JsError (js ''Failed to fetch'')) :: jserror + json"
  have "net env401 (fetchCount []) = HttpResponse 401 (js ''Unauthorized'') (Inr JNull)"
    by (simp add: env401_def env0_def)
  from fetchStructuredJobData_401 [OF this combinedPrompt_nonempty, of "searchParams state0"]
  obtain tr1 where run: "fetchStructuredJobData env401 (combinedPromptOf (searchParams state0)) []
       = (?r, tr1)"
    by auto
  have off: "\<not> useFallbackForTesting state0_serverless"
    by (simp add: state0_serverless_def)
  have d1: "diagnostic ?r = authenticationFailedMessage"
    by (simp add: includes_status_401)
  have d2: "diagnostic_serverless ?s = criticalErrorMessage_serverless (js ''Failed to fetch'')"
    by (simp add: js_def)
  from fallback_edge [of env401 state0 "[]" ?r tr1] run
    fallback_edge [of env0 _ "[]" ?s _ state0_serverless] fetch_serverless_env0 off
  show ?thesis
    unfolding d1 d2 by simp
qed

subsection \<open>C5: the forced fallback\<close>

text \<open>
  C5: with the testing switch on, a search leaves the trace as it was (no network call,
  no event at all) and ends, whatever the environment and the state before, with the
  fixed fallback listings, whose ids are the strings 101 to 104, and the canned insight
  string.
\<close>

theorem forced_fallback:
  assumes "useFallbackForTesting st"
  shows "handleSearch_serverless e st tr
     = ((st\<lparr>isSearching := False, jobs := fallbackListings,
             aiInsights := Some (JStr cannedInsights), searchError := testingMessage,
             searchProgress := [], isFallbackMode := True\<rparr>, None), tr)
     \<and> jobIds fallbackListings
         = map (\<lambda>s. Some (JStr (js s))) [''101'', ''102'', ''103'', ''104'']"
  using assms by (simp add: handleSearch_serverless_forced jobIds_fallback)

theorem forced_fallback_witness:
  "handleSearch_serverless env0 (state0_serverless\<lparr>useFallbackForTesting := True\<rparr>) []
     = ((state0_serverless\<lparr>useFallbackForTesting := True, isSearching := False,
           jobs := fallbackListings, aiInsights := Some (JStr cannedInsights),
           searchError := testingMessage, searchProgress := [], isFallbackMode := True\<rparr>,
         None), [])"
proof -
  have "useFallbackForTesting (state0_serverless\<lparr>useFallbackForTesting := True\<rparr>)" by simp
  from forced_fallback [OF this, of env0 "[]"] show ?thesis by simp
qed

subsection \<open>C6: when the insights stage runs\<close>

text \<open>
  C6, as stated, fails for the search that calls the model API itself: when the live
  stage yields the empty array, that search switches to the fallback data and its
  insights stage runs and sets the canned insight string.
\<close>

theorem insights_counterexample:
  "fst (fetchStructuredJobData envEmpty (combinedPromptOf (searchParams state0)) []) = Inr (JArr [])
   \<and> aiInsights (fst (fst (handleSearch envEmpty state0 []))) = Some (JStr cannedInsights)"
proof -
  obtain tr1 where run:
    "fetchStructuredJobData envEmpty (combinedPromptOf (searchParams state0)) [] = (Inr (JArr []), tr1)"
    using fetchStructuredJobData_envEmpty [OF combinedPrompt_nonempty, of "searchParams state0"]
    by (metis prod.collapse)
  have "\<not> liveResults (Inr (JArr []))" by simp
  from handleSearch_fallback [OF run this] run show ?thesis by simp
qed

text \<open>
  C6, amended: in the search of \<open>src/App.jsx\<close>, when the testing switch is off and the
  job-listing stage produced zero records, the insights stage is skipped (the trace
  ends with the events of the search call, one call of \<open>fetch\<close>, and the insights stay
  \<open>null\<close>), and when the testing switch is on it runs without any network call and sets
  the canned insight string; in the search that calls the model API itself, zero live
  records switch to the fallback data, and the insights stage runs without any network
  call and sets the canned insight string.
\<close>

theorem insights_stage:
  "(\<not> useFallbackForTesting su
      \<and> fetchStructuredJobData_serverless e (combinedPromptOf (searchParams su)) tr = (r, tr1)
      \<and> \<not> liveResults r \<longrightarrow>
      (\<exists>su'. handleSearch_serverless e su tr = ((su', None), tr1 @ errorLog r)
         \<and> aiInsights su' = Some JNull
         \<and> fetchCount (tr1 @ errorLog r) = fetchCount tr + 1))
   \<and> (useFallbackForTesting su \<longrightarrow>
      (\<exists>su'. handleSearch_serverless e su tr = ((su', None), tr)
         \<and> aiInsights su' = Some (JStr cannedInsights)))
   \<and> (fetchStructuredJobData e (combinedPromptOf (searchParams st)) tr = (r', tr2)
      \<and> \<not> liveResults r' \<longrightarrow>
      (\<exists>st'. handleSearch e st tr = ((st', None), tr2 @ errorLog r')
         \<and> aiInsights st' = Some (JStr cannedInsights) \<and> isFallbackMode st'))"
proof (intro conjI impI)
  assume a: "\<not> useFallbackForTesting su
      \<and> fetchStructuredJobData_serverless e (combinedPromptOf (searchParams su)) tr = (r, tr1)
      \<and> \<not> liveResults r"
  then have "fetchCount tr1 = fetchCount tr + 1"
    by (auto simp: fetchStructuredJobData_serverless_def)
  moreover have "fetchCount (errorLog r) = 0" by (cases r) simp_all
  ultimately show "\<exists>su'. handleSearch_serverless e su tr = ((su', None), tr1 @ errorLog r)
         \<and> aiInsights su' = Some JNull
         \<and> fetchCount (tr1 @ errorLog r) = fetchCount tr + 1"
    using a by (simp add: handleSearch_serverless_empty)
next
  assume "useFallbackForTesting su"
  then show "\<exists>su'. handleSearch_serverless e su tr = ((su', None), tr)
         \<and> aiInsights su' = Some (JStr cannedInsights)"
    by (simp add: handleSearch_serverless_forced)
next
  assume "fetchStructuredJobData e (combinedPromptOf (searchParams st)) tr = (r', tr2)
      \<and> \<not> liveResults r'"
  then show "\<exists>st'. handleSearch e st tr = ((st', None), tr2 @ errorLog r')
         \<and> aiInsights st' = Some (JStr cannedInsights) \<and> isFallbackMode st'"
    by (simp add: handleSearch_fallback)
qed

theorem insights_stage_witness:
  "(\<exists>su'. handleSearch_serverless env0 state0_serverless []
        = ((su', None),
           [Fetch (js ''/api/search'') contentType
              (JSON_stringify env0
                 (JObj [(js ''combinedPrompt'',
                         JStr (combinedPromptOf (searchParams state0_serverless)))])),
            Console [Text (js ''Search error:''), Thrown (JsError (js ''Failed to fetch''))]])
      \<and> aiInsights su' = Some JNull)
   \<and> (\<exists>su'. handleSearch_serverless env0 (state0_serverless\<lparr>useFallbackForTesting := True\<rparr>) []
        = ((su', None), [])
      \<and> aiInsights su' = Some (JStr cannedInsights))"
proof -
  have off: "\<not> useFallbackForTesting state0_serverless"
    by (simp add: state0_serverless_def)
  from insights_stage [where su = state0_serverless and e = env0 and tr = "[]"
      and r = "Inl (JsError (js ''Failed to fetch''))"
      and ?tr1.0 = "[Fetch (js ''/api/search'') contentType
              (JSON_stringify env0
                 (JObj [(js ''combinedPrompt'',
                         JStr (combinedPromptOf (searchParams state0_serverless)))]))]"]
    insights_stage [where su = "state0_serverless\<lparr>useFallbackForTesting := True\<rparr>"
      and e = env0 and tr = "[]"]
    fetch_serverless_env0 off
  show ?thesis by simp
qed

subsection \<open>C7: the credential in the console output\<close>

























text \<open>
  The two test helpers \<open>runSimpleApiTest\<close> and \<open>runGoldApiTest\<close> put the key into the
  URL and print that URL. Nothing calls them, and the module exports the component only,
  so they take part in no run; called with the key \<open>SECRET\<close>, the first would print the
  URL ending in \<open>?key=SECRET\<close> as its second console event.
\<close>

lemma runSimpleApiTest_prints_key:
  "snd (runSimpleApiTest env0 []) ! 1
     = Console [Text (js ''Request URL:''),
         Text (js ''https://generativelanguage.googleapis.com/v1beta/models/gemini-2.5-flash-preview-05-20:generateContent?key=SECRET'')]
   \<and> API_KEY env0 = js ''SECRET''"
  by (simp add: runSimpleApiTest_def Let_def env0_def API_ENDPOINT_def BASE_API_URL_def MODEL_def
      js_def)

subsection \<open>C8: the ids of a result set\<close>

text \<open>
  Post-processing gives a listing the string of its own id when that id is truthy, and
  the synthetic id of its position otherwise.
\<close>

lemma processJob_id:
  assumes "processJob e index job = Inr listing"
  shows "\<exists>newId. map_of listing (js ''id'') = Some (JStr newId)
     \<and> (case getProp job (js ''id'') of
           None \<Rightarrow> newId = js ''fallback-job-'' @ digits index
         | Some v \<Rightarrow> if truthy v then jsString e v = Inr newId
                    else newId = js ''fallback-job-'' @ digits index)"
  using assms
  by (auto simp: processJob_def Let_def truthy_opt_def update_conv'
      split: option.splits if_splits sum.splits)

text \<open>
  C8 fails in the code: post-processing replaces only a missing (falsy) id. Two listings
  that both come with the id 1 both keep it, as the string \<open>1\<close>.
\<close>

theorem duplicate_ids_kept:
  "mapJobs e 0
     [JObj [(js ''id'', JNum 1), (js ''title'', JStr (js ''A''))],
      JObj [(js ''id'', JNum 1), (js ''title'', JStr (js ''B''))]]
     = Inr [[(js ''id'', JStr (js ''1'')), (js ''title'', JStr (js ''A''))],
            [(js ''id'', JStr (js ''1'')), (js ''title'', JStr (js ''B''))]]
   \<and> \<not> distinct (jobIds [[(js ''id'', JStr (js ''1'')), (js ''title'', JStr (js ''A''))],
                          [(js ''id'', JStr (js ''1'')), (js ''title'', JStr (js ''B''))]])"
  by (simp add: processJob_def truthy_opt_def numberToString_def jobIds_def digits.simps js_def)

subsection \<open>C9: the job link\<close>

text \<open>
  Whenever a link is rendered, it is actionable exactly when the listing's \<open>url\<close> is a
  string that starts with \<open>http://\<close> or \<open>https://\<close>, and inert otherwise; a link is
  rendered, and inert, for every listing whose \<open>url\<close> is missing, falsy or a string
  without such a start.
\<close>

lemma link_actionable_iff:
  "(\<forall>l. renderJobLink e job = Inr l \<longrightarrow>
        (actionable l \<longleftrightarrow> absoluteHttpUrl (map_of job (js ''url'')))
      \<and> (\<not> actionable l \<longrightarrow> inert l))
   \<and> (urlIsText (map_of job (js ''url'')) \<and> \<not> absoluteHttpUrl (map_of job (js ''url'')) \<longrightarrow>
        renderJobLink e job
          = Inr \<lparr>href = map_of job (js ''url''), ariaDisabled = True, preventsDefault = True\<rparr>)
   \<and> (absoluteHttpUrl (map_of job (js ''url'')) \<longrightarrow>
        renderJobLink e job
          = Inr \<lparr>href = map_of job (js ''url''), ariaDisabled = False, preventsDefault = False\<rparr>)
   \<and> (\<not> urlIsText (map_of job (js ''url'')) \<longrightarrow>
        renderJobLink e job = Inl (JsError (typeErrorMessage e)))"
  by (auto simp: renderJobLink_def isValidUrl_def absoluteHttpUrl_def urlIsText_def actionable_def
      inert_def String_startsWith_def brackets_nonempty
      split: option.splits json.splits sum.splits if_splits)

text \<open>
  C9 fails in the code for a \<open>url\<close> that is truthy and not a string. A parsed listing
  with the \<open>url\<close> 5 passes post-processing as it is; its \<open>url\<close> is not an absolute URL,
  so the link is to be inert, but \<open>job.url.startsWith\<close> is not a function and rendering
  throws: no inert link is rendered.
\<close>

theorem link_render_throws:
  "mapJobs e 0 [JObj [(js ''id'', JNum 1), (js ''url'', JNum 5)]]
     = Inr [[(js ''id'', JStr (js ''1'')), (js ''url'', JNum 5)]]
   \<and> \<not> absoluteHttpUrl (map_of [(js ''id'', JStr (js ''1'')), (js ''url'', JNum 5)] (js ''url''))
   \<and> renderJobLink e [(js ''id'', JStr (js ''1'')), (js ''url'', JNum 5)]
       = Inl (JsError (typeErrorMessage e))"
proof -
  have one: "digits (Suc 0) = js ''1''"
    by (simp add: digits.simps js_def)
  show ?thesis
    by (simp add: processJob_def truthy_opt_def numberToString_def one Let_def
        renderJobLink_def isValidUrl_def absoluteHttpUrl_def id_neq_url)
qed

subsection \<open>C10: feedback toggling\<close>

text \<open>
  The id of a processed listing is a string, and that string is its key in the feedback
  object.
\<close>

lemma processed_id_key:
  assumes "processJob e index job = Inr listing"
  shows "\<exists>key. propertyKey e (map_of listing (js ''id'')) = Inr key"
  using processJob_id [OF assms] by (auto simp: propertyKey_def)

text \<open>
  C10, as stated, fails: when the job's entry already holds the clicked type, two
  applications give back the original state, in which the entry is present, and not the
  original with the entry removed.
\<close>

theorem handleFeedback_twice_counterexample:
  "applyTwice (\<lambda>fb. handleFeedback env0 fb job1 (js ''positive'')) [js ''1'' \<mapsto> js ''positive'']
     = Inr [js ''1'' \<mapsto> js ''positive'']
   \<and> [js ''1'' \<mapsto> js ''positive''] \<noteq> [js ''1'' \<mapsto> js ''positive''](js ''1'' := None)"
proof -
  have key: "propertyKey env0 (map_of job1 (js ''id'')) = Inr (js ''1'')"
    by (simp add: job1_def propertyKey_def js_def)
  have plain: "js ''1'' \<noteq> js ''__proto__''"
    by (simp add: js_def)
  have twice: "applyTwice (\<lambda>fb. handleFeedback env0 fb job1 (js ''positive''))
       [js ''1'' \<mapsto> js ''positive''] = Inr [js ''1'' \<mapsto> js ''positive'']"
    by (simp add: applyTwice_def handleFeedback_apply [OF key] assignProperty_def plain)
  have "[js ''1'' \<mapsto> js ''positive''] (js ''1'') \<noteq>
        ([js ''1'' \<mapsto> js ''positive''](js ''1'' := None)) (js ''1'')"
    by simp
  then have "[js ''1'' \<mapsto> js ''positive''] \<noteq> [js ''1'' \<mapsto> js ''positive''](js ''1'' := None)"
    by metis
  with twice show ?thesis by simp
qed

text \<open>
  C10, amended: when the job's id has a string, \<open>key\<close>, two applications of
  \<open>handleFeedback job type\<close> give the original state when the job's entry already was
  \<open>type\<close> (and the id is not \<open>__proto__\<close>), and the original state with that entry removed
  otherwise; one application removes the entry when it is \<open>type\<close>, and otherwise sets it
  to \<open>type\<close>, except that for the id \<open>__proto__\<close> with no entry nothing is stored and the
  state stays as it is; the entries of all other ids are unchanged by every application.
  When the id has no string, the application throws and no state results.
\<close>

theorem handleFeedback_toggle:
  "(\<forall>key. propertyKey e (map_of job (js ''id'')) = Inr key \<longrightarrow>
       applyTwice (\<lambda>s. handleFeedback e s job t) fb
         = Inr (if fb key = Some t \<and> key \<noteq> js ''__proto__'' then fb else fb(key := None))
     \<and> (fb key = Some t \<longrightarrow> handleFeedback e fb job t = Inr (fb(key := None)))
     \<and> (fb key \<noteq> Some t \<longrightarrow>
          handleFeedback e fb job t
            = Inr (if key = js ''__proto__'' \<and> fb key = None then fb else fb(key \<mapsto> t)))
     \<and> (\<exists>fb'. handleFeedback e fb job t = Inr fb'
            \<and> (\<forall>other. other \<noteq> key \<longrightarrow> fb' other = fb other)))
   \<and> (\<forall>err. propertyKey e (map_of job (js ''id'')) = Inl err \<longrightarrow>
         handleFeedback e fb job t = Inl err)"
proof (intro conjI allI impI)
  fix key
  assume key: "propertyKey e (map_of job (js ''id'')) = Inr key"
  show "applyTwice (\<lambda>s. handleFeedback e s job t) fb
         = Inr (if fb key = Some t \<and> key \<noteq> js ''__proto__'' then fb else fb(key := None))"
    by (auto simp: applyTwice_def handleFeedback_apply [OF key] assignProperty_def fun_upd_idem)
  show "handleFeedback e fb job t = Inr (fb(key := None))" if "fb key = Some t"
    using that by (simp add: handleFeedback_apply [OF key])
  show "handleFeedback e fb job t
          = Inr (if key = js ''__proto__'' \<and> fb key = None then fb else fb(key \<mapsto> t))"
    if "fb key \<noteq> Some t"
    using that by (simp add: handleFeedback_apply [OF key] assignProperty_def)
  show "\<exists>fb'. handleFeedback e fb job t = Inr fb'
            \<and> (\<forall>other. other \<noteq> key \<longrightarrow> fb' other = fb other)"
    by (simp add: handleFeedback_apply [OF key] assignProperty_def)
next
  fix err
  assume "propertyKey e (map_of job (js ''id'')) = Inl err"
  then show "handleFeedback e fb job t = Inl err"
    by (simp add: handleFeedback_def)
qed

theorem handleFeedback_toggle_witness:
  "applyTwice (\<lambda>s. handleFeedback env0 s job1 (js ''positive'')) Map.empty = Inr Map.empty
   \<and> handleFeedback env0 [js ''1'' \<mapsto> js ''positive''] job1 (js ''positive'') = Inr Map.empty
   \<and> handleFeedback env0 [js ''1'' \<mapsto> js ''positive''] job1 (js ''negative'')
       = Inr [js ''1'' \<mapsto> js ''negative'']
   \<and> handleFeedback env0 Map.empty [(js ''id'', JStr (js ''__proto__''))] (js ''positive'')
       = Inr Map.empty
   \<and> handleFeedback env0 Map.empty [(js ''id'', JObj [(js ''toString'', JNull)])] (js ''positive'')
       = Inl (JsError (js ''not a function''))"
proof -
  have key: "propertyKey env0 (map_of job1 (js ''id'')) = Inr (js ''1'')"
    and proto: "propertyKey env0 (map_of [(js ''id'', JStr (js ''__proto__''))] (js ''id''))
      = Inr (js ''__proto__'')"
    and none: "propertyKey env0 (map_of [(js ''id'', JObj [(js ''toString'', JNull)])] (js ''id''))
      = Inl (JsError (js ''not a function''))"
    by (simp_all add: job1_def propertyKey_def env0_def)
  have neq: "js ''positive'' \<noteq> js ''negative''" "js ''1'' \<noteq> js ''__proto__''"
    by (simp_all add: js_def)
  show ?thesis
    using handleFeedback_toggle [of env0 job1 "js ''positive''" Map.empty]
      handleFeedback_toggle [of env0 job1 "js ''positive''" "[js ''1'' \<mapsto> js ''positive'']"]
      handleFeedback_toggle [of env0 job1 "js ''negative''" "[js ''1'' \<mapsto> js ''positive'']"]
      handleFeedback_toggle [of env0 "[(js ''id'', JStr (js ''__proto__''))]" "js ''positive''"
        Map.empty]
      handleFeedback_toggle [of env0 "[(js ''id'', JObj [(js ''toString'', JNull)])]"
        "js ''positive''" Map.empty]
      key proto none neq
    by simp
qed

end
